theory Spec2Isabelle
  imports Main "HOL-Library.Word"
begin

section \<open>Strings and JSON values\<close>

text \<open>
  The module under verification is \<^verbatim>\<open>public/js/debug.js\<close>: the debug modal, the
  recorder of the last API call, the two clipboard exports and the debug-mode gate.

  A JavaScript string is a finite sequence of UTF-16 code units, and \<^verbatim>\<open>.length\<close>
  counts code units. Strings are therefore lists of 16-bit words. ASCII text is written
  with \<open>js\<close>; the Japanese text and the emoji of the source are written as their code
  units.
\<close>

type_synonym jstr = "16 word list"

definition js :: "string \<Rightarrow> jstr" where
  "js = map of_char"

text \<open>
  The decimal text of a natural number. It is what a template literal prints for the
  length of a string and for the status of a response: a string has fewer than
  \<^verbatim>\<open>2^53\<close> code units and a status is an unsigned 16-bit integer, and JavaScript
  prints an integer below \<^verbatim>\<open>10^21\<close> as plain decimal digits.
\<close>

definition digit :: "nat \<Rightarrow> 16 word" where
  "digit d = of_nat (48 + d)"

fun show_nat :: "nat \<Rightarrow> jstr" where
  "show_nat n = (if n < 10 then [digit n] else show_nat (n div 10) @ [digit (n mod 10)])"

declare show_nat.simps [simp del]

text \<open>\<^verbatim>\<open>Array.prototype.join\<close> on an array of strings.\<close>

fun join :: "jstr \<Rightarrow> jstr list \<Rightarrow> jstr" where
  "join sep [] = []"
| "join sep [x] = x"
| "join sep (x # y # ys) = x @ sep @ join sep (y # ys)"

text \<open>
  Payloads, the raw model list and the values of the environment maps are JSON values:
  what a JSON text denotes. An object is the list of its properties in enumeration
  order. The type \<open>'n\<close> is the type of numbers: the finite numbers of JavaScript, the
  two zeros taken as one (no operation of the module tells them apart).
\<close>

datatype 'n json =
    JNull
  | JBool bool
  | JNum 'n
  | JStr jstr
  | JArr "'n json list"
  | JObj "(jstr \<times> 'n json) list"

text \<open>
  What the module takes from the JavaScript engine and this development does not
  define: \<open>number_text\<close> is \<^verbatim>\<open>Number::toString\<close>, the text of a number in a template
  literal and in \<^verbatim>\<open>JSON.stringify\<close> (for instance \<^verbatim>\<open>200\<close>, \<^verbatim>\<open>0.00125\<close>,
  \<^verbatim>\<open>1e+21\<close>); \<open>number_value\<close> is the number that a JSON number token denotes, if the
  text is such a token; \<open>is_zero\<close> tells whether a number is zero, which is when it is
  falsy; \<open>conversion_message\<close> is the message of the \<^verbatim>\<open>TypeError\<close> that the engine
  throws when an object cannot be converted to a primitive value.
\<close>

record 'n engine =
  number_text :: "'n \<Rightarrow> jstr"
  number_value :: "jstr \<Rightarrow> 'n option"
  is_zero :: "'n \<Rightarrow> bool"
  conversion_message :: jstr

datatype exception = TypeError | SyntaxError

text \<open>Truthiness, as tested by \<^verbatim>\<open>||\<close>, \<^verbatim>\<open>?:\<close> and \<^verbatim>\<open>if\<close>.\<close>

fun truthy :: "'n engine \<Rightarrow> 'n json \<Rightarrow> bool" where
  "truthy E JNull = False"
| "truthy E (JBool b) = b"
| "truthy E (JNum n) = (\<not> is_zero E n)"
| "truthy E (JStr s) = (s \<noteq> [])"
| "truthy E (JArr xs) = True"
| "truthy E (JObj kvs) = True"

text \<open>
  \<^verbatim>\<open>ToString\<close>, applied when a value is interpolated into a template literal. An array
  is joined with commas, its elements converted in turn and \<^verbatim>\<open>null\<close> elements giving
  the empty string. An object parsed from JSON inherits \<^verbatim>\<open>Object.prototype.toString\<close>
  and gives \<^verbatim>\<open>[object Object]\<close>, unless it has an own property \<^verbatim>\<open>toString\<close>: the
  value of that property is not callable, \<^verbatim>\<open>valueOf\<close> returns no primitive, and the
  conversion throws a \<^verbatim>\<open>TypeError\<close>.
\<close>

fun to_string :: "'n engine \<Rightarrow> 'n json \<Rightarrow> exception + jstr"
  and elements_to_string :: "'n engine \<Rightarrow> 'n json list \<Rightarrow> exception + jstr list" where
  "to_string E JNull = Inr (js ''null'')"
| "to_string E (JBool b) = Inr (if b then js ''true'' else js ''false'')"
| "to_string E (JNum n) = Inr (number_text E n)"
| "to_string E (JStr s) = Inr s"
| "to_string E (JArr xs) =
     (case elements_to_string E xs of
        Inl e \<Rightarrow> Inl e
      | Inr texts \<Rightarrow> Inr (join (js '','') texts))"
| "to_string E (JObj kvs) =
     (if js ''toString'' \<in> set (map fst kvs) then Inl TypeError
      else Inr (js ''[object Object]''))"
| "elements_to_string E [] = Inr []"
| "elements_to_string E (x # xs) =
     (case (case x of JNull \<Rightarrow> Inr [] | _ \<Rightarrow> to_string E x) of
        Inl e \<Rightarrow> Inl e
      | Inr t \<Rightarrow>
          (case elements_to_string E xs of
             Inl e \<Rightarrow> Inl e
           | Inr texts \<Rightarrow> Inr (t # texts)))"

section \<open>\<^verbatim>\<open>JSON.stringify\<close> and \<^verbatim>\<open>JSON.parse\<close>\<close>

subsection \<open>Quoting a string\<close>

definition hex_digit :: "nat \<Rightarrow> 16 word" where
  "hex_digit d = (if d < 10 then of_nat (48 + d) else of_nat (87 + d))"

definition unicode_escape :: "16 word \<Rightarrow> jstr" where
  "unicode_escape c =
     [0x5C, 0x75, hex_digit (unat c div 4096), hex_digit (unat c div 256 mod 16),
      hex_digit (unat c div 16 mod 16), hex_digit (unat c mod 16)]"

definition is_lead :: "16 word \<Rightarrow> bool" where
  "is_lead c = (0xD800 \<le> c \<and> c \<le> 0xDBFF)"

definition is_trail :: "16 word \<Rightarrow> bool" where
  "is_trail c = (0xDC00 \<le> c \<and> c \<le> 0xDFFF)"

text \<open>One code unit that is not part of a surrogate pair (\<^verbatim>\<open>QuoteJSONString\<close>).\<close>

definition quote_unit :: "16 word \<Rightarrow> jstr" where
  "quote_unit c =
     (if c = 0x08 then [0x5C, 0x62]
      else if c = 0x09 then [0x5C, 0x74]
      else if c = 0x0A then [0x5C, 0x6E]
      else if c = 0x0C then [0x5C, 0x66]
      else if c = 0x0D then [0x5C, 0x72]
      else if c = 0x22 then [0x5C, 0x22]
      else if c = 0x5C then [0x5C, 0x5C]
      else if c < 0x20 \<or> is_lead c \<or> is_trail c then unicode_escape c
      else [c])"

fun quote_units :: "jstr \<Rightarrow> jstr" where
  "quote_units (c # d # ds) =
     (if is_lead c \<and> is_trail d then c # d # quote_units ds
      else quote_unit c @ quote_units (d # ds))"
| "quote_units [c] = quote_unit c"
| "quote_units [] = []"

definition quote :: "jstr \<Rightarrow> jstr" where
  "quote s = [0x22] @ quote_units s @ [0x22]"

subsection \<open>The replacer of \<^verbatim>\<open>recordApiCall\<close>\<close>

definition image_data :: jstr where
  "image_data = js ''image_data''"

text \<open>The template literal \<^verbatim>\<open>`[Image: ${v.length} chars]`\<close>.\<close>

definition image_placeholder :: "nat \<Rightarrow> jstr" where
  "image_placeholder n = js ''[Image: '' @ show_nat n @ js '' chars]''"

text \<open>
  The replacer function
  \<^verbatim>\<open>(k, v) => (k === 'image_data' && typeof v === 'string') ? `[Image: ...]` : v\<close>.
\<close>

definition replacer :: "jstr \<Rightarrow> 'n json \<Rightarrow> 'n json" where
  "replacer k v =
     (case v of
        JStr s \<Rightarrow> if k = image_data then JStr (image_placeholder (length s)) else v
      | _ \<Rightarrow> v)"

subsection \<open>Serialisation\<close>

definition spaces :: "nat \<Rightarrow> jstr" where
  "spaces n = replicate n 0x20"

definition newline :: jstr where
  "newline = [0x0A]"

text \<open>
  The brackets around the serialised elements or members (the end of
  \<^verbatim>\<open>SerializeJSONArray\<close> and of \<^verbatim>\<open>SerializeJSONObject\<close>): \<open>g\<close> is the number of spaces
  of the gap, \<open>i\<close> the number of spaces of the indentation outside the brackets.
\<close>

definition wrap :: "nat \<Rightarrow> nat \<Rightarrow> jstr \<Rightarrow> jstr \<Rightarrow> jstr list \<Rightarrow> jstr" where
  "wrap g i opening closing partial =
     (if partial = [] then opening @ closing
      else if g = 0 then opening @ join (js '','') partial @ closing
      else opening @ newline @ spaces (i + g)
           @ join (js '','' @ newline @ spaces (i + g)) partial
           @ newline @ spaces i @ closing)"

text \<open>
  \<^verbatim>\<open>JSON.stringify\<close> is called in two ways by the module: with the replacer above and no
  gap, and with no replacer and a gap of two spaces. \<open>serialize E r g i k v\<close> is
  \<^verbatim>\<open>SerializeJSONProperty\<close> for the value \<open>v\<close> held under the key \<open>k\<close>: \<open>r\<close> tells
  whether the replacer is installed, \<open>g\<close> is the gap and \<open>i\<close> the current indentation.
  The replacer is called with the key and the value, and the walk continues into what
  it returns. The key of an array element is its index as a decimal string.
\<close>

function serialize :: "'n engine \<Rightarrow> bool \<Rightarrow> nat \<Rightarrow> nat \<Rightarrow> jstr \<Rightarrow> 'n json \<Rightarrow> jstr"
  and serialize_elements ::
    "'n engine \<Rightarrow> bool \<Rightarrow> nat \<Rightarrow> nat \<Rightarrow> nat \<Rightarrow> 'n json list \<Rightarrow> jstr list"
  and serialize_members ::
    "'n engine \<Rightarrow> bool \<Rightarrow> nat \<Rightarrow> nat \<Rightarrow> (jstr \<times> 'n json) list \<Rightarrow> jstr list" where
  "serialize E r g i k v =
     (case (if r then replacer k v else v) of
        JNull \<Rightarrow> js ''null''
      | JBool b \<Rightarrow> (if b then js ''true'' else js ''false'')
      | JNum n \<Rightarrow> number_text E n
      | JStr s \<Rightarrow> quote s
      | JArr xs \<Rightarrow> wrap g i (js ''['') (js '']'') (serialize_elements E r g (i + g) 0 xs)
      | JObj kvs \<Rightarrow> wrap g i (js ''{'') (js ''}'') (serialize_members E r g (i + g) kvs))"
| "serialize_elements E r g i n [] = []"
| "serialize_elements E r g i n (x # xs) =
     serialize E r g i (show_nat n) x # serialize_elements E r g i (Suc n) xs"
| "serialize_members E r g i [] = []"
| "serialize_members E r g i ((k, v) # kvs) =
     (quote k @ js '':'' @ (if g = 0 then [] else js '' '') @ serialize E r g i k v)
     # serialize_members E r g i kvs"
  by pat_completeness auto
termination
  by (relation "measure (\<lambda>x. case x of
          Inl (E, r, g, i, k, v) \<Rightarrow> 2 * size v
        | Inr (Inl (E, r, g, i, n, xs)) \<Rightarrow> 2 * size_list size xs + 1
        | Inr (Inr (E, r, g, i, kvs)) \<Rightarrow> 2 * size_list (size_prod (\<lambda>_. 0) size) kvs + 1)")
     (auto simp: replacer_def split: json.splits if_splits)

declare serialize.simps [simp del]

text \<open>
  \<^verbatim>\<open>JSON.stringify(v, replacer)\<close> is \<open>JSON_stringify E True 0 v\<close>, and
  \<^verbatim>\<open>JSON.stringify(v, null, 2)\<close> is \<open>JSON_stringify E False 2 v\<close>. The key of the
  top-level value is the empty string.
\<close>

definition JSON_stringify :: "'n engine \<Rightarrow> bool \<Rightarrow> nat \<Rightarrow> 'n json \<Rightarrow> jstr" where
  "JSON_stringify E r g v = serialize E r g 0 [] v"

subsection \<open>Parsing\<close>

definition is_ws :: "16 word \<Rightarrow> bool" where
  "is_ws c = (c = 0x20 \<or> c = 0x09 \<or> c = 0x0A \<or> c = 0x0D)"

definition skip_ws :: "jstr \<Rightarrow> jstr" where
  "skip_ws s = dropWhile is_ws s"

definition hex_value :: "16 word \<Rightarrow> nat option" where
  "hex_value c =
     (if 0x30 \<le> c \<and> c \<le> 0x39 then Some (unat c - 48)
      else if 0x61 \<le> c \<and> c \<le> 0x66 then Some (unat c - 87)
      else if 0x41 \<le> c \<and> c \<le> 0x46 then Some (unat c - 55)
      else None)"

definition hex4 :: "16 word \<Rightarrow> 16 word \<Rightarrow> 16 word \<Rightarrow> 16 word \<Rightarrow> 16 word option" where
  "hex4 a b c d =
     (case (hex_value a, hex_value b, hex_value c, hex_value d) of
        (Some x, Some y, Some z, Some w) \<Rightarrow> Some (of_nat (((x * 16 + y) * 16 + z) * 16 + w))
      | _ \<Rightarrow> None)"

definition unescape :: "16 word \<Rightarrow> 16 word option" where
  "unescape e =
     (if e = 0x22 then Some 0x22
      else if e = 0x5C then Some 0x5C
      else if e = 0x2F then Some 0x2F
      else if e = 0x62 then Some 0x08
      else if e = 0x66 then Some 0x0C
      else if e = 0x6E then Some 0x0A
      else if e = 0x72 then Some 0x0D
      else if e = 0x74 then Some 0x09
      else None)"

definition cons_unit :: "16 word \<Rightarrow> (jstr \<times> jstr) option \<Rightarrow> (jstr \<times> jstr) option" where
  "cons_unit c r = (case r of None \<Rightarrow> None | Some (s, rest) \<Rightarrow> Some (c # s, rest))"

text \<open>
  The characters of a JSON string after its opening quote: the string denoted, and the
  text after the closing quote.
\<close>

fun unquote :: "jstr \<Rightarrow> (jstr \<times> jstr) option" where
  "unquote [] = None"
| "unquote (c # cs) =
     (if c = 0x22 then Some ([], cs)
      else if c = 0x5C then
        (case cs of
           [] \<Rightarrow> None
         | e # es \<Rightarrow>
             if e = 0x75 then
               (case es of
                  h1 # h2 # h3 # h4 # rest \<Rightarrow>
                    (case hex4 h1 h2 h3 h4 of
                       None \<Rightarrow> None
                     | Some u \<Rightarrow> cons_unit u (unquote rest))
                | _ \<Rightarrow> None)
             else (case unescape e of
                     None \<Rightarrow> None
                   | Some u \<Rightarrow> cons_unit u (unquote es)))
      else if c < 0x20 then None
      else cons_unit c (unquote cs))"

text \<open>The characters that a JSON number token is made of.\<close>

definition is_number_unit :: "16 word \<Rightarrow> bool" where
  "is_number_unit c =
     ((0x30 \<le> c \<and> c \<le> 0x39) \<or> c = 0x2D \<or> c = 0x2B \<or> c = 0x2E \<or> c = 0x65 \<or> c = 0x45)"

text \<open>
  A JSON value at the start of a text, after white space: the value, and the text that
  follows it. A number is the longest run of number characters, read by the engine.
  \<open>parse_elements\<close> reads the elements of an array up to its closing bracket,
  \<open>parse_members\<close> the members of an object up to its closing brace. The tests on
  lengths hold whenever they are reached (a value is never the empty text); they make
  it plain that the recursion ends.

  The members of an object are kept as they are read. For a text that repeats a key in
  an object, or lists an integer-like key after another key, JavaScript builds an
  object with fewer or reordered properties; \<^verbatim>\<open>JSON.stringify\<close> writes no such text,
  and the module parses nothing but what \<^verbatim>\<open>JSON.stringify\<close> has written.
\<close>

function parse_value :: "'n engine \<Rightarrow> jstr \<Rightarrow> ('n json \<times> jstr) option"
  and parse_elements :: "'n engine \<Rightarrow> jstr \<Rightarrow> ('n json list \<times> jstr) option"
  and parse_members :: "'n engine \<Rightarrow> jstr \<Rightarrow> ((jstr \<times> 'n json) list \<times> jstr) option" where
  "parse_value E s =
     (case skip_ws s of
        [] \<Rightarrow> None
      | c # cs \<Rightarrow>
          if c = 0x7B then
            (case skip_ws cs of
               [] \<Rightarrow> None
             | d # ds \<Rightarrow>
                 if d = 0x7D then Some (JObj [], ds)
                 else (case parse_members E cs of
                         None \<Rightarrow> None
                       | Some (kvs, rest) \<Rightarrow> Some (JObj kvs, rest)))
          else if c = 0x5B then
            (case skip_ws cs of
               [] \<Rightarrow> None
             | d # ds \<Rightarrow>
                 if d = 0x5D then Some (JArr [], ds)
                 else (case parse_elements E cs of
                         None \<Rightarrow> None
                       | Some (xs, rest) \<Rightarrow> Some (JArr xs, rest)))
          else if c = 0x22 then
            (case unquote cs of
               None \<Rightarrow> None
             | Some (str, rest) \<Rightarrow> Some (JStr str, rest))
          else if take 4 (c # cs) = js ''true'' then Some (JBool True, drop 4 (c # cs))
          else if take 5 (c # cs) = js ''false'' then Some (JBool False, drop 5 (c # cs))
          else if take 4 (c # cs) = js ''null'' then Some (JNull, drop 4 (c # cs))
          else if is_number_unit c then
            (case number_value E (takeWhile is_number_unit (c # cs)) of
               None \<Rightarrow> None
             | Some n \<Rightarrow> Some (JNum n, dropWhile is_number_unit (c # cs)))
          else None)"
| "parse_elements E s =
     (case parse_value E s of
        None \<Rightarrow> None
      | Some (x, rest) \<Rightarrow>
          if length rest < length s then
            (case skip_ws rest of
               [] \<Rightarrow> None
             | c # cs \<Rightarrow>
                 if c = 0x2C then
                   (case parse_elements E cs of
                      None \<Rightarrow> None
                    | Some (xs, rest') \<Rightarrow> Some (x # xs, rest'))
                 else if c = 0x5D then Some ([x], cs)
                 else None)
          else None)"
| "parse_members E s =
     (case skip_ws s of
        [] \<Rightarrow> None
      | q # qs \<Rightarrow>
          if q = 0x22 then
            (case unquote qs of
               None \<Rightarrow> None
             | Some (k, after_key) \<Rightarrow>
                 (case skip_ws after_key of
                    [] \<Rightarrow> None
                  | c # cs \<Rightarrow>
                      if c = 0x3A \<and> length cs < length s then
                        (case parse_value E cs of
                           None \<Rightarrow> None
                         | Some (v, rest) \<Rightarrow>
                             if length rest < length cs then
                               (case skip_ws rest of
                                  [] \<Rightarrow> None
                                | d # ds \<Rightarrow>
                                    if d = 0x2C then
                                      (case parse_members E ds of
                                         None \<Rightarrow> None
                                       | Some (kvs, rest') \<Rightarrow> Some ((k, v) # kvs, rest'))
                                    else if d = 0x7D then Some ([(k, v)], ds)
                                    else None)
                             else None)
                      else None))
          else None)"
  by pat_completeness auto
termination
proof (relation "measure (\<lambda>x. case x of
          Inl (E, s) \<Rightarrow> 2 * length s
        | Inr (Inl (E, s)) \<Rightarrow> 2 * length s + 1
        | Inr (Inr (E, s)) \<Rightarrow> 2 * length s + 1)", goal_cases)
  case 1
  show ?case by simp
next
  case (2 E s c cs d ds)
  have "length (skip_ws s) \<le> length s"
    by (simp add: skip_ws_def length_dropWhile_le)
  with 2 show ?case by simp
next
  case (3 E s c cs d ds)
  have "length (skip_ws s) \<le> length s"
    by (simp add: skip_ws_def length_dropWhile_le)
  with 3 show ?case by simp
next
  case (4 E s)
  show ?case by simp
next
  case (5 E s x2 x rest c cs)
  have "length (skip_ws rest) \<le> length rest"
    by (simp add: skip_ws_def length_dropWhile_le)
  with 5 show ?case by simp
next
  case (6 E s q qs x2 k after_key c cs)
  then show ?case by simp
next
  case (7 E s q qs x2 k after_key c cs x2a v rest d ds)
  have "length (skip_ws rest) \<le> length rest"
    by (simp add: skip_ws_def length_dropWhile_le)
  with 7 show ?case by simp
qed

declare parse_value.simps [simp del]
declare parse_elements.simps [simp del]
declare parse_members.simps [simp del]

text \<open>\<^verbatim>\<open>JSON.parse(text)\<close>: \<open>None\<close> stands for the \<^verbatim>\<open>SyntaxError\<close>.\<close>

definition JSON_parse :: "'n engine \<Rightarrow> jstr \<Rightarrow> 'n json option" where
  "JSON_parse E s =
     (case parse_value E s of
        None \<Rightarrow> None
      | Some (v, rest) \<Rightarrow> if skip_ws rest = [] then Some v else None)"

section \<open>The recorder of the last API call\<close>

text \<open>\<^verbatim>\<open>JSON.parse(JSON.stringify(value, replacer))\<close>.\<close>

definition sanitized_copy :: "'n engine \<Rightarrow> 'n json \<Rightarrow> exception + 'n json" where
  "sanitized_copy E v =
     (case JSON_parse E (JSON_stringify E True 0 v) of
        None \<Rightarrow> Inl SyntaxError
      | Some copy \<Rightarrow> Inr copy)"

text \<open>
  The stored record. \<open>status\<close> and \<open>error\<close> are whatever JSON value the caller
  passed, \<^verbatim>\<open>null\<close> by default; \<open>http_method\<close> is the field \<^verbatim>\<open>method\<close>.
\<close>

record 'n api_call =
  timestamp :: jstr
  endpoint :: jstr
  http_method :: jstr
  status :: "'n json"
  error :: "'n json"
  request :: "'n json"
  response :: "'n json"

text \<open>The record as the object that \<^verbatim>\<open>JSON.stringify\<close> walks, in property order.\<close>

definition api_call_json :: "'n api_call \<Rightarrow> 'n json" where
  "api_call_json r =
     JObj [(js ''timestamp'', JStr (timestamp r)),
           (js ''endpoint'', JStr (endpoint r)),
           (js ''method'', JStr (http_method r)),
           (js ''status'', status r),
           (js ''error'', error r),
           (js ''request'', request r),
           (js ''response'', response r)]"

section \<open>The page: document, application state, storage and effects\<close>

record element =
  classList :: "jstr list"
  innerHTML :: jstr
  display :: jstr

datatype level = LOG | WARN | ERROR

text \<open>
  The four elements that \<^verbatim>\<open>document.getElementById\<close> looks up (\<open>None\<close> when the page
  has no such element), the slots of \<^verbatim>\<open>window.App\<close> that the module reads and writes,
  \<^verbatim>\<open>localStorage\<close>, and what the module has done to the outside: the URLs fetched,
  the texts written to the clipboard, the toasts shown, the console calls.
  \<open>showToast\<close> tells whether \<^verbatim>\<open>window.showToast\<close> is defined, and
  \<open>navigator_clipboard\<close> whether \<^verbatim>\<open>navigator.clipboard\<close> is: browsers define it in
  secure contexts only, so it is undefined on a page served over plain HTTP from
  another host.
\<close>

record 'n page =
  debugModal :: "element option"
  debugInfoContent :: "element option"
  modelSelectMenuItem :: "element option"
  debugInfoMenuItem :: "element option"
  enabled :: bool
  serverMode :: bool
  lastApiCall :: "'n api_call option"
  lastModelList :: "'n json list option"
  defaultPrompt :: jstr
  current :: "jstr option"
  localStorage :: "jstr \<rightharpoonup> jstr"
  showToast :: bool
  navigator_clipboard :: bool
  toasts :: "jstr list"
  clipboard :: "jstr list"
  console :: "(level \<times> 'n json list) list"
  fetched :: "jstr list"

text \<open>
  \<^verbatim>\<open>recordApiCall(endpoint, method, request, response, error = null, status = null)\<close>;
  \<open>now\<close> is \<^verbatim>\<open>new Date().toISOString()\<close>, and an omitted argument is \<open>None\<close>. The
  object literal is evaluated before the assignment: if a copy throws, the slot keeps
  what it held.
\<close>

definition recordApiCall ::
  "'n engine \<Rightarrow> jstr \<Rightarrow> jstr \<Rightarrow> jstr \<Rightarrow> 'n json \<Rightarrow> 'n json \<Rightarrow> 'n json option \<Rightarrow> 'n json option
     \<Rightarrow> 'n page \<Rightarrow> exception + 'n page" where
  "recordApiCall E now ep m req resp err st p =
     (case sanitized_copy E req of
        Inl e \<Rightarrow> Inl e
      | Inr request_copy \<Rightarrow>
          (case sanitized_copy E resp of
             Inl e \<Rightarrow> Inl e
           | Inr response_copy \<Rightarrow>
               Inr (p\<lparr>lastApiCall := Some
                      \<lparr>timestamp = now,
                       endpoint = ep,
                       http_method = m,
                       status = (case st of None \<Rightarrow> JNull | Some v \<Rightarrow> v),
                       error = (case err of None \<Rightarrow> JNull | Some v \<Rightarrow> v),
                       request = request_copy,
                       response = response_copy\<rparr>\<rparr>)))"

section \<open>Notifications and clipboard export\<close>

definition toast_no_data :: jstr where
  \<open>toast_no_data =
     [0x30B3, 0x30D4, 0x30FC, 0x3059, 0x308B, 0x30C7, 0x30FC, 0x30BF, 0x304C, 0x3042, 0x308A, 0x307E, 0x305B, 0x3093]\<close>

definition toast_models_copied :: jstr where
  \<open>toast_models_copied =
     [0x30E2, 0x30C7, 0x30EB, 0x30C7, 0x30FC, 0x30BF, 0x3092, 0x30B3, 0x30D4, 0x30FC, 0x3057, 0x307E, 0x3057, 0x305F]\<close>

definition toast_copy_failed :: jstr where
  \<open>toast_copy_failed =
     [0x30B3, 0x30D4, 0x30FC, 0x5931, 0x6557]\<close>

definition toast_no_history :: jstr where
  \<open>toast_no_history =
     [0x30B3, 0x30D4, 0x30FC, 0x3059, 0x308B, 0x5C65, 0x6B74, 0x304C, 0x3042, 0x308A, 0x307E, 0x305B, 0x3093]\<close>

definition toast_copied :: jstr where
  \<open>toast_copied =
     [0x30B3, 0x30D4, 0x30FC, 0x3057, 0x307E, 0x3057, 0x305F]\<close>

text \<open>
  Every notification of the module is the guarded call
  \<^verbatim>\<open>window.showToast && window.showToast(msg)\<close>.
\<close>

definition notify :: "jstr \<Rightarrow> 'n page \<Rightarrow> 'n page" where
  "notify msg p = (if showToast p then p\<lparr>toasts := toasts p @ [msg]\<rparr> else p)"

text \<open>
  \<^verbatim>\<open>navigator.clipboard.writeText(text)\<close>. Where \<^verbatim>\<open>navigator.clipboard\<close> is undefined,
  reading its property \<^verbatim>\<open>writeText\<close> throws a \<^verbatim>\<open>TypeError\<close>; otherwise the call is
  recorded.
\<close>

definition writeText :: "jstr \<Rightarrow> 'n page \<Rightarrow> exception + 'n page" where
  "writeText content p =
     (if navigator_clipboard p then Inr (p\<lparr>clipboard := clipboard p @ [content]\<rparr>)
      else Inl TypeError)"

definition banner :: jstr where
  "banner = js ''=== Memo AI Debug ==='' @ [0x0A]"

text \<open>
  The two exports. \<open>written\<close> tells whether the promise of \<^verbatim>\<open>writeText\<close> resolves;
  the \<^verbatim>\<open>TypeError\<close> of a missing \<^verbatim>\<open>navigator.clipboard\<close> is thrown before there is a
  promise, and nothing catches it.
\<close>

definition copyModelList :: "'n engine \<Rightarrow> bool \<Rightarrow> 'n page \<Rightarrow> exception + 'n page" where
  "copyModelList E written p =
     (case lastModelList p of
        None \<Rightarrow> Inr (notify toast_no_data p)
      | Some raw \<Rightarrow>
          (case writeText (JSON_stringify E False 2 (JArr raw)) p of
             Inl e \<Rightarrow> Inl e
           | Inr p \<Rightarrow>
               Inr (if written then notify toast_models_copied p
                    else notify toast_copy_failed p)))"

definition copyLastApiCall :: "'n engine \<Rightarrow> bool \<Rightarrow> 'n page \<Rightarrow> exception + 'n page" where
  "copyLastApiCall E written p =
     (case lastApiCall p of
        None \<Rightarrow> Inr (notify toast_no_history p)
      | Some call \<Rightarrow>
          (case writeText (banner @ JSON_stringify E False 2 (api_call_json call)) p of
             Inl e \<Rightarrow> Inl e
           | Inr p \<Rightarrow>
               Inr (if written then notify toast_copied p else notify toast_copy_failed p)))"

section \<open>Debug-mode initialisation and UI gating\<close>

text \<open>
  What \<^verbatim>\<open>await fetch(url)\<close> followed by \<^verbatim>\<open>await res.json()\<close> can yield: the fetch
  rejects with an error message; or it resolves to a response with a status (an
  unsigned 16-bit integer) and a status text, whose body either fails to parse or is
  the parsed data.
\<close>

datatype 'a body = Malformed jstr | Parsed 'a

datatype 'a fetch_result = Rejected jstr | Response "16 word" jstr "'a body"

definition ok :: "16 word \<Rightarrow> bool" where
  "ok code = (200 \<le> code \<and> code \<le> 299)"

record config =
  debug_mode :: "bool option"
  default_system_prompt :: "jstr option"

definition config_url :: jstr where
  \<open>config_url =
     js ''/api/config''\<close>

definition selected_model_key :: jstr where
  "selected_model_key = js ''memo_ai_selected_model''"

definition console_call :: "level \<Rightarrow> 'n json list \<Rightarrow> 'n page \<Rightarrow> 'n page" where
  "console_call l args p = p\<lparr>console := console p @ [(l, args)]\<rparr>"

definition updateDebugModeUI :: "'n page \<Rightarrow> 'n page" where
  "updateDebugModeUI p0 =
     (let p = (case modelSelectMenuItem p0 of
                 None \<Rightarrow> p0
               | Some item \<Rightarrow>
                   if serverMode p0 then p0\<lparr>modelSelectMenuItem := Some (item\<lparr>display := []\<rparr>)\<rparr>
                   else p0\<lparr>modelSelectMenuItem := Some (item\<lparr>display := js ''none''\<rparr>),
                          current := None,
                          localStorage := (localStorage p0)(selected_model_key := None)\<rparr>);
          p = (case debugInfoMenuItem p of
                 None \<Rightarrow> p
               | Some item \<Rightarrow>
                   if serverMode p then p\<lparr>debugInfoMenuItem := Some (item\<lparr>display := []\<rparr>)\<rparr>
                   else p\<lparr>debugInfoMenuItem := Some (item\<lparr>display := js ''none''\<rparr>)\<rparr>)
      in if enabled p
         then console_call LOG
                [JStr (js ''[DEBUG_MODE] UI updated. Model selection:''),
                 JStr (if serverMode p then js ''enabled'' else js ''disabled'')] p
         else p)"

text \<open>The \<^verbatim>\<open>catch\<close> block of \<^verbatim>\<open>initializeDebugMode\<close>.\<close>

definition config_failed :: "jstr \<Rightarrow> 'n page \<Rightarrow> 'n page" where
  "config_failed msg p =
     updateDebugModeUI
       ((console_call ERROR [JStr (js ''[DEBUG_MODE] Error fetching config:''), JStr msg] p)
          \<lparr>serverMode := False\<rparr>)"

definition initializeDebugMode :: "config fetch_result \<Rightarrow> 'n page \<Rightarrow> 'n page" where
  "initializeDebugMode res p0 =
     (let p = p0\<lparr>fetched := fetched p0 @ [config_url]\<rparr>
      in case res of
           Rejected msg \<Rightarrow> config_failed msg p
         | Response code txt b \<Rightarrow>
             if \<not> ok code
             then console_call WARN
                    [JStr (js ''[DEBUG_MODE] Failed to fetch config, assuming debug_mode=false'')] p
             else (case b of
                     Malformed msg \<Rightarrow> config_failed msg p
                   | Parsed data \<Rightarrow>
                       let p = p\<lparr>serverMode :=
                                   (case debug_mode data of None \<Rightarrow> False | Some d \<Rightarrow> d)\<rparr>;
                           p = (case default_system_prompt data of
                                  None \<Rightarrow> p
                                | Some prompt \<Rightarrow>
                                    if prompt = [] then p
                                    else let p = p\<lparr>defaultPrompt := prompt\<rparr>
                                         in if enabled p
                                            then console_call LOG
                                                   [JStr (js ''[CONFIG] App.defaultPrompt loaded from backend'')] p
                                            else p);
                           p = (if enabled p
                                then console_call LOG
                                       [JStr (js ''[DEBUG_MODE] Server debug_mode:''),
                                        JBool (serverMode p)] p
                                else p)
                       in updateDebugModeUI p))"

section \<open>The debug modal\<close>

record cors_info =
  allowed_origins :: "jstr list"
  is_restricted :: bool
  detected_platform :: "jstr option"

record 'n model_catalog =
  recommended_count :: 'n
  total_count :: 'n
  raw_list :: "'n json list"

text \<open>
  The body of \<^verbatim>\<open>GET /api/debug5075378\<close>, typed as the endpoint's interface: every
  field is optional, and \<open>None\<close> stands for a field that is absent or \<^verbatim>\<open>null\<close> (the
  source tests the fields for truthiness, and an object is always truthy).
  \<open>data_timestamp\<close> is the field \<^verbatim>\<open>timestamp\<close>. The values of the two environment
  maps are arbitrary JSON values.
\<close>

record 'n snapshot =
  data_timestamp :: "jstr option"
  cors :: "cors_info option"
  environment :: "(jstr \<times> 'n json) list option"
  env_vars :: "(jstr \<times> 'n json) list option"
  models :: "'n model_catalog option"

text \<open>
  The string literals and template fragments of the module, one constant for each. A
  character outside ASCII is written as its UTF-16 code units.
\<close>

definition not_available :: jstr where
  \<open>not_available =
     js ''N/A''\<close>

definition div_close :: jstr where
  \<open>div_close =
     js ''</div>''\<close>

definition section_open :: jstr where
  \<open>section_open =
     js ''<div class="debug-section">''\<close>

definition code_item_close :: jstr where
  \<open>code_item_close =
     js ''</code></div>''\<close>

definition span_item_close :: jstr where
  \<open>span_item_close =
     js ''</span></div>''\<close>

definition grid_close :: jstr where
  \<open>grid_close =
     js ''</div></div>''\<close>

definition pre_open :: jstr where
  \<open>pre_open =
     js ''<pre class="debug-code">''\<close>

definition pre_close :: jstr where
  \<open>pre_close =
     js ''</pre>''\<close>

definition item_open :: jstr where
  \<open>item_open =
     js ''<div class="debug-item"><span class="debug-label">''\<close>

definition span_value_open :: jstr where
  \<open>span_value_open =
     js '':</span><span class="debug-value">''\<close>

definition code_value_open :: jstr where
  \<open>code_value_open =
     js '':</span><code class="debug-value">''\<close>

definition details_open :: jstr where
  \<open>details_open =
     js ''<details style="margin-top: 8px;">''\<close>

definition models_pre_open :: jstr where
  \<open>models_pre_open =
     js ''<pre class="debug-code" style="max-height: 400px; overflow: auto; margin-top: 8px;">''\<close>

definition details_close :: jstr where
  \<open>details_close =
     js ''</details>''\<close>

definition debug_url :: jstr where
  \<open>debug_url =
     js ''/api/debug5075378''\<close>

definition loading_indicator :: jstr where
  \<open>loading_indicator =
     js ''<div class="loading-indicator"><div class="spinner"></div><span>'' @ [0x8AAD, 0x307F, 0x8FBC, 0x307F, 0x4E2D] @ js ''...</span></div>''\<close>

definition error_panel_open :: jstr where
  \<open>error_panel_open =
     [0x000A] @ js ''            <div class="debug-error">'' @ [0x000A] @ js ''                <h3>'' @ [0x274C] @ js '' '' @ [0x30C7, 0x30D0, 0x30C3, 0x30B0, 0x60C5, 0x5831, 0x306E, 0x53D6, 0x5F97, 0x306B, 0x5931, 0x6557] @ js ''</h3>'' @ [0x000A] @ js ''                <p>''\<close>

definition error_panel_hint :: jstr where
  \<open>error_panel_hint =
     js ''</p>'' @ [0x000A] @ js ''                <p class="debug-hint">'' @ [0x000A] @ js ''                    '' @ [0xD83D, 0xDCA1] @ js '' '' @ [0x30D2, 0x30F3, 0x30C8] @ js '': '' @ [0x30B5, 0x30FC, 0x30D0, 0x30FC, 0x304C, 0x8D77, 0x52D5, 0x3057, 0x3066, 0x3044, 0x308B, 0x304B, 0x78BA, 0x8A8D, 0x3057, 0x3066, 0x304F, 0x3060, 0x3055, 0x3044, 0x000A] @ js ''                </p>'' @ [0x000A] @ js ''            </div>'' @ [0x000A] @ js ''        ''\<close>

definition timestamp_open :: jstr where
  \<open>timestamp_open =
     js ''<div class="debug-timestamp">'' @ [0x53D6, 0x5F97, 0x6642, 0x523B] @ js '': ''\<close>

definition cors_heading :: jstr where
  \<open>cors_heading =
     js ''<h3>'' @ [0xD83D, 0xDD10] @ js '' CORS'' @ [0x8A2D, 0x5B9A] @ js ''</h3><div class="debug-grid">''\<close>

definition origins_open :: jstr where
  \<open>origins_open =
     js ''<div class="debug-item"><span class="debug-label">'' @ [0x8A31, 0x53EF, 0x30AA, 0x30EA, 0x30B8, 0x30F3] @ js '':</span><code class="debug-value">''\<close>

definition restricted_open :: jstr where
  \<open>restricted_open =
     js ''<div class="debug-item"><span class="debug-label">'' @ [0x5236, 0x9650, 0x30E2, 0x30FC, 0x30C9] @ js '':</span><span class="debug-value">''\<close>

definition label_restricted :: jstr where
  \<open>label_restricted =
     [0x2705] @ js '' '' @ [0x306F, 0x3044]\<close>

definition label_unrestricted :: jstr where
  \<open>label_unrestricted =
     [0x274C] @ js '' '' @ [0x3044, 0x3044, 0x3048] @ js '' ('' @ [0x5168, 0x8A31, 0x53EF] @ js '')''\<close>

definition platform_open :: jstr where
  \<open>platform_open =
     js ''<div class="debug-item"><span class="debug-label">'' @ [0x691C, 0x51FA, 0x30D7, 0x30E9, 0x30C3, 0x30C8, 0x30D5, 0x30A9, 0x30FC, 0x30E0] @ js '':</span><span class="debug-value">''\<close>

definition api_heading :: jstr where
  \<open>api_heading =
     js ''<h3>'' @ [0xD83D, 0xDCE1] @ js '' '' @ [0x6700, 0x65B0] @ js ''API'' @ [0x901A, 0x4FE1] @ js '' <button class="btn-copy-debug" onclick="window.copyLastApiCall()">'' @ [0xD83D, 0xDCCB] @ js '' '' @ [0x30B3, 0x30D4, 0x30FC] @ js ''</button></h3>''\<close>

definition api_none :: jstr where
  \<open>api_none =
     js ''<p class="debug-hint">'' @ [0x307E, 0x3060] @ js ''API'' @ [0x901A, 0x4FE1, 0x304C, 0x3042, 0x308A, 0x307E, 0x305B, 0x3093, 0x3002] @ js ''</p>''\<close>

definition environment_open :: jstr where
  \<open>environment_open =
     js ''<div class="debug-section"><h3>'' @ [0x2699, 0xFE0F] @ js '' '' @ [0x74B0, 0x5883, 0x60C5, 0x5831] @ js ''</h3><div class="debug-grid">''\<close>

definition env_vars_open :: jstr where
  \<open>env_vars_open =
     js ''<div class="debug-section"><h3>'' @ [0xD83D, 0xDD10] @ js '' '' @ [0x74B0, 0x5883, 0x5909, 0x6570] @ js ''</h3><div class="debug-grid">''\<close>

definition models_heading_open :: jstr where
  \<open>models_heading_open =
     js ''<h3>'' @ [0xD83D, 0xDCCB] @ js '' '' @ [0x30E2, 0x30C7, 0x30EB, 0x4E00, 0x89A7] @ js '' (''\<close>

definition models_heading_mid :: jstr where
  \<open>models_heading_mid =
     js '' '' @ [0x63A8, 0x5968] @ js '' / ''\<close>

definition models_heading_close :: jstr where
  \<open>models_heading_close =
     js '' '' @ [0x5168, 0x30E2, 0x30C7, 0x30EB] @ js '') <button class="btn-copy-debug" onclick="window.copyModelList()">'' @ [0xD83D, 0xDCCB] @ js '' '' @ [0x30B3, 0x30D4, 0x30FC] @ js ''</button></h3>''\<close>

definition models_summary :: jstr where
  \<open>models_summary =
     js ''<summary style="cursor: pointer; padding: 8px; background: var(--bg-secondary); border-radius: 4px;">'' @ [0x5168, 0x30E2, 0x30C7, 0x30EB, 0x751F, 0x30C7, 0x30FC, 0x30BF, 0x3092, 0x8868, 0x793A] @ js ''...</summary>''\<close>

text \<open>\<^verbatim>\<open>.replace(/</g, '&lt;')\<close>.\<close>

definition escape_lt :: "jstr \<Rightarrow> jstr" where
  "escape_lt s = concat (map (\<lambda>c. if c = 0x3C then js ''&lt;'' else [c]) s)"

text \<open>
  The two \<^verbatim>\<open>for\<close> loops of \<^verbatim>\<open>renderDebugInfo\<close>, over the entries of \<^verbatim>\<open>environment\<close>
  and of \<^verbatim>\<open>env_vars\<close>. Each entry appends one item to \<open>html\<close>; the template literal
  converts the value to a string, which may throw.
\<close>

fun environment_items :: "'n engine \<Rightarrow> jstr \<Rightarrow> (jstr \<times> 'n json) list \<Rightarrow> exception + jstr" where
  "environment_items E html [] = Inr html"
| "environment_items E html ((key, val) # entries) =
     (case to_string E val of
        Inl e \<Rightarrow> Inl e
      | Inr shown \<Rightarrow>
          environment_items E
            (html @ item_open @ key @ span_value_open @ shown @ span_item_close) entries)"

fun env_var_items :: "'n engine \<Rightarrow> jstr \<Rightarrow> (jstr \<times> 'n json) list \<Rightarrow> exception + jstr" where
  "env_var_items E html [] = Inr html"
| "env_var_items E html ((key, val) # entries) =
     (case (if truthy E val then to_string E val else Inr (js ''null'')) of
        Inl e \<Rightarrow> Inl e
      | Inr shown \<Rightarrow>
          env_var_items E
            (html @ item_open @ key @ code_value_open @ shown @ code_item_close) entries)"

text \<open>
  \<^verbatim>\<open>renderDebugInfo(data)\<close>. The string literals of the source are the constants
  above, one for each distinct literal or template fragment. The fragments are appended
  to \<open>html\<close> in the order of the source. An exception of one of the two loops leaves
  the function before the model list is stored and before \<open>html\<close> is assigned to the
  container.
\<close>

definition renderDebugInfo :: "'n engine \<Rightarrow> 'n snapshot \<Rightarrow> 'n page \<Rightarrow> exception + 'n page" where
  "renderDebugInfo E data p0 =
     (case debugInfoContent p0 of
        None \<Rightarrow> Inr p0
      | Some content \<Rightarrow>
          let html = timestamp_open
                @ (case data_timestamp data of
                     None \<Rightarrow> not_available
                   | Some t \<Rightarrow> if t = [] then not_available else t)
                @ div_close;
              html = (case cors data of
                  None \<Rightarrow> html
                | Some c \<Rightarrow>
                    let html = html @ section_open;
                        html = html @ cors_heading;
                        html = html @ origins_open @ join (js '', '') (allowed_origins c)
                                 @ code_item_close;
                        html = html @ restricted_open
                                 @ (if is_restricted c then label_restricted else label_unrestricted)
                                 @ span_item_close;
                        html = (case detected_platform c of
                                  None \<Rightarrow> html
                                | Some pf \<Rightarrow>
                                    if pf = [] then html
                                    else html @ platform_open @ pf @ span_item_close)
                    in html @ grid_close);
              html = html @ section_open;
              html = html @ api_heading;
              html = (case lastApiCall p0 of
                  Some call \<Rightarrow>
                    html @ pre_open
                      @ escape_lt (JSON_stringify E False 2 (api_call_json call)) @ pre_close
                | None \<Rightarrow> html @ api_none);
              html = html @ div_close;
              html = html @ environment_open
          in case environment_items E html
                    (case environment data of None \<Rightarrow> [] | Some entries \<Rightarrow> entries) of
               Inl e \<Rightarrow> Inl e
             | Inr html \<Rightarrow>
                 let html = html @ grid_close
                 in case (case env_vars data of
                            None \<Rightarrow> Inr html
                          | Some entries \<Rightarrow>
                              let html = html @ env_vars_open
                              in case env_var_items E html entries of
                                   Inl e \<Rightarrow> Inl e
                                 | Inr html \<Rightarrow> Inr (html @ grid_close)) of
                    Inl e \<Rightarrow> Inl e
                  | Inr html \<Rightarrow>
                      let (p, html) = (case models data of
                          None \<Rightarrow> (p0, html)
                        | Some m \<Rightarrow>
                            let p = p0\<lparr>lastModelList := Some (raw_list m)\<rparr>;
                                html = html @ section_open;
                                html = html @ models_heading_open
                                         @ number_text E (recommended_count m)
                                         @ models_heading_mid @ number_text E (total_count m)
                                         @ models_heading_close;
                                html = html @ details_open;
                                html = html @ models_summary;
                                html = html @ models_pre_open
                                         @ escape_lt (JSON_stringify E False 2 (JArr (raw_list m)))
                                         @ pre_close;
                                html = html @ details_close;
                                html = html @ div_close
                            in (p, html))
                      in Inr (p\<lparr>debugInfoContent := Some (content\<lparr>innerHTML := html\<rparr>)\<rparr>))"

text \<open>The error panel of the \<^verbatim>\<open>catch\<close> block of \<^verbatim>\<open>loadDebugInfo\<close>.\<close>

definition error_panel :: "jstr \<Rightarrow> jstr" where
  "error_panel message = error_panel_open @ message @ error_panel_hint"

text \<open>\<^verbatim>\<open>content.innerHTML = html\<close>, for the element found at the start of the call.\<close>

definition set_content :: "jstr \<Rightarrow> 'n page \<Rightarrow> 'n page" where
  "set_content html p =
     p\<lparr>debugInfoContent := map_option (\<lambda>content. content\<lparr>innerHTML := html\<rparr>) (debugInfoContent p)\<rparr>"

text \<open>
  \<^verbatim>\<open>loadDebugInfo()\<close>, run to completion on the outcome \<open>res\<close> of its fetch. No other
  handler runs while the fetch is pending. The \<^verbatim>\<open>catch\<close> block also receives what
  \<^verbatim>\<open>renderDebugInfo\<close> throws: the \<^verbatim>\<open>TypeError\<close> of a failed conversion, whose message
  is the engine's.
\<close>

definition loadDebugInfo :: "'n engine \<Rightarrow> 'n snapshot fetch_result \<Rightarrow> 'n page \<Rightarrow> 'n page" where
  "loadDebugInfo E res p0 =
     (case debugInfoContent p0 of
        None \<Rightarrow> p0
      | Some content \<Rightarrow>
          let p = set_content loading_indicator p0;
              p = p\<lparr>fetched := fetched p @ [debug_url]\<rparr>
          in case res of
               Rejected msg \<Rightarrow> set_content (error_panel msg) p
             | Response code txt b \<Rightarrow>
                 if \<not> ok code
                 then set_content
                        (error_panel (js ''HTTP '' @ show_nat (unat code) @ js '': '' @ txt)) p
                 else (case b of
                         Malformed msg \<Rightarrow> set_content (error_panel msg) p
                       | Parsed data \<Rightarrow>
                           (case renderDebugInfo E data p of
                              Inl e \<Rightarrow> set_content (error_panel (conversion_message E)) p
                            | Inr rendered \<Rightarrow> rendered)))"

text \<open>
  \<^verbatim>\<open>classList.remove\<close> and \<^verbatim>\<open>classList.add\<close> on the token list of an element.
\<close>

definition remove_token :: "jstr \<Rightarrow> jstr list \<Rightarrow> jstr list" where
  "remove_token t ts = filter (\<lambda>u. u \<noteq> t) ts"

definition add_token :: "jstr \<Rightarrow> jstr list \<Rightarrow> jstr list" where
  "add_token t ts = (if t \<in> set ts then ts else ts @ [t])"

text \<open>
  Reading \<^verbatim>\<open>modal.classList\<close> when \<^verbatim>\<open>getElementById\<close> returned \<^verbatim>\<open>null\<close> throws a
  \<^verbatim>\<open>TypeError\<close>, which nothing in the module catches.
\<close>

definition openDebugModal ::
  "'n engine \<Rightarrow> 'n snapshot fetch_result \<Rightarrow> 'n page \<Rightarrow> exception + 'n page" where
  "openDebugModal E res p =
     (case debugModal p of
        None \<Rightarrow> Inl TypeError
      | Some modal \<Rightarrow>
          Inr (loadDebugInfo E res
                 (p\<lparr>debugModal :=
                      Some (modal\<lparr>classList := remove_token (js ''hidden'') (classList modal)\<rparr>)\<rparr>)))"

definition closeDebugModal :: "'n page \<Rightarrow> exception + 'n page" where
  "closeDebugModal p =
     (case debugModal p of
        None \<Rightarrow> Inl TypeError
      | Some modal \<Rightarrow>
          Inr (p\<lparr>debugModal :=
                   Some (modal\<lparr>classList := add_token (js ''hidden'') (classList modal)\<rparr>)\<rparr>))"

section \<open>Specification-level notions\<close>

text \<open>
  The definitions of this section are not translations of the source: they state, in
  the words of the specification, what the source is compared with.
\<close>

subsection \<open>Numbers of the engine\<close>

text \<open>
  What ECMA-262 guarantees of the two number conversions: the text of a number is a
  JSON number token, which starts with a digit or a minus sign, and reading that
  token gives the number back.
\<close>

definition numbers_round_trip :: "'n engine \<Rightarrow> bool" where
  "numbers_round_trip E =
     (\<forall>n. number_value E (number_text E n) = Some n
          \<and> number_text E n \<noteq> []
          \<and> list_all is_number_unit (number_text E n)
          \<and> (hd (number_text E n) = 0x2D
               \<or> (0x30 \<le> hd (number_text E n) \<and> hd (number_text E n) \<le> 0x39)))"

text \<open>A text at whose start a number token ends.\<close>

definition delimited :: "jstr \<Rightarrow> bool" where
  "delimited rest = (case rest of [] \<Rightarrow> True | c # cs \<Rightarrow> \<not> is_number_unit c)"

text \<open>
  An engine for the examples: the integers from 0 to 65535, printed in decimal. A
  token is read as such a number when it consists of digits, has no leading zero and
  denotes a number in that range.
\<close>

definition digit_value :: "16 word \<Rightarrow> nat" where
  "digit_value c = unat c - 48"

definition read_nat :: "jstr \<Rightarrow> nat" where
  "read_nat s = foldl (\<lambda>a c. 10 * a + digit_value c) 0 s"

definition is_digit_unit :: "16 word \<Rightarrow> bool" where
  "is_digit_unit c = (0x30 \<le> c \<and> c \<le> 0x39)"

definition small_numbers :: "16 word engine" where
  "small_numbers =
     \<lparr>number_text = (\<lambda>w. show_nat (unat w)),
      number_value = (\<lambda>s.
        if s \<noteq> [] \<and> list_all is_digit_unit s \<and> (length s = 1 \<or> hd s \<noteq> 0x30)
           \<and> read_nat s < 65536
        then Some (of_nat (read_nat s)) else None),
      is_zero = (\<lambda>w. w = 0),
      conversion_message = js ''Cannot convert object to primitive value''\<rparr>"

subsection \<open>Sanitised payloads\<close>

text \<open>
  The sanitisation pass as the specification words it: going through the payload
  recursively, a field keyed \<^verbatim>\<open>image_data\<close> whose value is a string of \<open>N\<close> characters
  becomes the placeholder for \<open>N\<close>; every other field, array element and value is kept,
  with the same replacement applied inside it.
\<close>

fun redacted :: "'n json \<Rightarrow> 'n json"
  and redacted_elements :: "'n json list \<Rightarrow> 'n json list"
  and redacted_fields :: "(jstr \<times> 'n json) list \<Rightarrow> (jstr \<times> 'n json) list" where
  "redacted (JArr xs) = JArr (redacted_elements xs)"
| "redacted (JObj kvs) = JObj (redacted_fields kvs)"
| "redacted JNull = JNull"
| "redacted (JBool b) = JBool b"
| "redacted (JNum n) = JNum n"
| "redacted (JStr s) = JStr s"
| "redacted_elements [] = []"
| "redacted_elements (x # xs) = redacted x # redacted_elements xs"
| "redacted_fields [] = []"
| "redacted_fields ((k, v) # kvs) =
     (k, case v of
           JStr s \<Rightarrow> if k = image_data then JStr (image_placeholder (length s)) else JStr s
         | _ \<Rightarrow> redacted v) # redacted_fields kvs"

text \<open>A payload with no string-valued \<^verbatim>\<open>image_data\<close> field at any depth.\<close>

fun image_free :: "'n json \<Rightarrow> bool"
  and image_free_elements :: "'n json list \<Rightarrow> bool"
  and image_free_fields :: "(jstr \<times> 'n json) list \<Rightarrow> bool" where
  "image_free (JArr xs) = image_free_elements xs"
| "image_free (JObj kvs) = image_free_fields kvs"
| "image_free JNull = True"
| "image_free (JBool b) = True"
| "image_free (JNum n) = True"
| "image_free (JStr s) = True"
| "image_free_elements [] = True"
| "image_free_elements (x # xs) = (image_free x \<and> image_free_elements xs)"
| "image_free_fields [] = True"
| "image_free_fields ((k, v) # kvs) =
     ((case v of JStr s \<Rightarrow> k \<noteq> image_data | _ \<Rightarrow> image_free v) \<and> image_free_fields kvs)"

text \<open>
  Two payloads that differ at most in the characters of their \<^verbatim>\<open>image_data\<close> strings:
  the same structure, keys and values throughout, and, where a field keyed
  \<^verbatim>\<open>image_data\<close> holds a string, strings of the same length.
\<close>

fun alike :: "'n json \<Rightarrow> 'n json \<Rightarrow> bool"
  and alike_elements :: "'n json list \<Rightarrow> 'n json list \<Rightarrow> bool"
  and alike_fields :: "(jstr \<times> 'n json) list \<Rightarrow> (jstr \<times> 'n json) list \<Rightarrow> bool" where
  "alike (JArr xs) w = (case w of JArr ys \<Rightarrow> alike_elements xs ys | _ \<Rightarrow> False)"
| "alike (JObj kvs) w = (case w of JObj lws \<Rightarrow> alike_fields kvs lws | _ \<Rightarrow> False)"
| "alike JNull w = (w = JNull)"
| "alike (JBool b) w = (w = JBool b)"
| "alike (JNum n) w = (w = JNum n)"
| "alike (JStr s) w = (w = JStr s)"
| "alike_elements [] ys = (ys = [])"
| "alike_elements (x # xs) ys =
     (case ys of [] \<Rightarrow> False | y # ys' \<Rightarrow> alike x y \<and> alike_elements xs ys')"
| "alike_fields [] lws = (lws = [])"
| "alike_fields ((k, v) # kvs) lws =
     (case lws of
        [] \<Rightarrow> False
      | (l, w) # lws' \<Rightarrow>
          k = l
          \<and> (case v of
               JStr s \<Rightarrow>
                 if k = image_data
                 then (case w of JStr t \<Rightarrow> length s = length t | _ \<Rightarrow> False)
                 else w = JStr s
             | _ \<Rightarrow> alike v w)
          \<and> alike_fields kvs lws')"

text \<open>
  Reading the length back from a placeholder: the decimal number between the eight
  characters \<^verbatim>\<open>[Image: \<close> and the seven characters \<^verbatim>\<open> chars]\<close>.
\<close>

definition placeholder_length :: "jstr \<Rightarrow> nat" where
  "placeholder_length p = read_nat (take (length p - 15) (drop 8 p))"

subsection \<open>Failures of a fetch\<close>

text \<open>
  The error message of a failed fetch: the message of the network or parse error, or
  \<^verbatim>\<open>HTTP <status>: <statusText>\<close> for a status outside 200 to 299. A fetch that
  delivers parsed data has none.
\<close>

definition failure_message :: "'a fetch_result \<Rightarrow> jstr option" where
  "failure_message res =
     (case res of
        Rejected msg \<Rightarrow> Some msg
      | Response code txt b \<Rightarrow>
          if \<not> ok code then Some (js ''HTTP '' @ show_nat (unat code) @ js '': '' @ txt)
          else (case b of Malformed msg \<Rightarrow> Some msg | Parsed data \<Rightarrow> None))"

subsection \<open>Values that convert to a string\<close>

text \<open>
  A value converts to a string unless it is an object with an own property
  \<^verbatim>\<open>toString\<close>, or an array that holds, directly or through arrays, such an object.
\<close>

fun convertible :: "'n json \<Rightarrow> bool"
  and convertible_elements :: "'n json list \<Rightarrow> bool" where
  "convertible (JArr xs) = convertible_elements xs"
| "convertible (JObj kvs) = (js ''toString'' \<notin> set (map fst kvs))"
| "convertible JNull = True"
| "convertible (JBool b) = True"
| "convertible (JNum n) = True"
| "convertible (JStr s) = True"
| "convertible_elements [] = True"
| "convertible_elements (x # xs) = (convertible x \<and> convertible_elements xs)"

text \<open>The string of a value that converts.\<close>

definition string_of :: "'n engine \<Rightarrow> 'n json \<Rightarrow> jstr" where
  "string_of E v = (case to_string E v of Inl e \<Rightarrow> [] | Inr s \<Rightarrow> s)"

text \<open>
  A snapshot that can be rendered: every value of its \<^verbatim>\<open>environment\<close> and
  \<^verbatim>\<open>env_vars\<close> maps converts to a string.
\<close>

definition entries :: "(jstr \<times> 'n json) list option \<Rightarrow> (jstr \<times> 'n json) list" where
  "entries m = (case m of None \<Rightarrow> [] | Some kvs \<Rightarrow> kvs)"

definition renderable :: "'n snapshot \<Rightarrow> bool" where
  "renderable data =
     (list_all (\<lambda>(key, val). convertible val) (entries (environment data))
      \<and> list_all (\<lambda>(key, val). convertible val) (entries (env_vars data)))"

subsection \<open>The sections of the rendered snapshot\<close>

text \<open>
  One function for each section of the debug panel. The CORS, environment-variable and
  model sections are the empty text when their data is absent; the timestamp line, the
  API-call section and the environment section are always there.
\<close>

definition timestamp_line :: "'n snapshot \<Rightarrow> jstr" where
  "timestamp_line data =
     timestamp_open
     @ (case data_timestamp data of
          None \<Rightarrow> not_available
        | Some t \<Rightarrow> if t = [] then not_available else t)
     @ div_close"

definition platform_item :: "jstr option \<Rightarrow> jstr" where
  "platform_item pf =
     (case pf of
        None \<Rightarrow> []
      | Some name \<Rightarrow> if name = [] then [] else platform_open @ name @ span_item_close)"

definition cors_section :: "cors_info option \<Rightarrow> jstr" where
  "cors_section info =
     (case info of
        None \<Rightarrow> []
      | Some c \<Rightarrow>
          section_open @ cors_heading
          @ origins_open @ join (js '', '') (allowed_origins c) @ code_item_close
          @ restricted_open @ (if is_restricted c then label_restricted else label_unrestricted)
          @ span_item_close
          @ platform_item (detected_platform c)
          @ grid_close)"

definition api_section :: "'n engine \<Rightarrow> 'n api_call option \<Rightarrow> jstr" where
  "api_section E recorded =
     section_open @ api_heading
     @ (case recorded of
          None \<Rightarrow> api_none
        | Some call \<Rightarrow>
            pre_open @ escape_lt (JSON_stringify E False 2 (api_call_json call)) @ pre_close)
     @ div_close"

definition environment_section :: "'n engine \<Rightarrow> (jstr \<times> 'n json) list option \<Rightarrow> jstr" where
  "environment_section E env =
     environment_open
     @ concat (map (\<lambda>(key, val). item_open @ key @ span_value_open @ string_of E val @ span_item_close)
        (entries env))
     @ grid_close"

definition env_vars_section :: "'n engine \<Rightarrow> (jstr \<times> 'n json) list option \<Rightarrow> jstr" where
  "env_vars_section E vars =
     (case vars of
        None \<Rightarrow> []
      | Some kvs \<Rightarrow>
          env_vars_open
          @ concat (map (\<lambda>(key, val).
               item_open @ key @ code_value_open
               @ (if truthy E val then string_of E val else js ''null'') @ code_item_close)
             kvs)
          @ grid_close)"

definition models_section :: "'n engine \<Rightarrow> 'n model_catalog option \<Rightarrow> jstr" where
  "models_section E catalog =
     (case catalog of
        None \<Rightarrow> []
      | Some m \<Rightarrow>
          section_open
          @ models_heading_open @ number_text E (recommended_count m) @ models_heading_mid
          @ number_text E (total_count m) @ models_heading_close
          @ details_open @ models_summary
          @ models_pre_open @ escape_lt (JSON_stringify E False 2 (JArr (raw_list m))) @ pre_close
          @ details_close @ div_close)"

text \<open>The whole markup of a snapshot rendered on a page that holds the record \<open>recorded\<close>.\<close>

definition rendered_markup :: "'n engine \<Rightarrow> 'n api_call option \<Rightarrow> 'n snapshot \<Rightarrow> jstr" where
  "rendered_markup E recorded data =
     timestamp_line data @ cors_section (cors data) @ api_section E recorded
     @ environment_section E (environment data) @ env_vars_section E (env_vars data)
     @ models_section E (models data)"

subsection \<open>Example pages\<close>

definition hidden_element :: element where
  "hidden_element = \<lparr>classList = [js ''hidden''], innerHTML = [], display = js ''none''\<rparr>"

definition shown_element :: element where
  "shown_element = \<lparr>classList = [], innerHTML = js ''<b>old</b>'', display = []\<rparr>"

text \<open>
  A page with all four elements, debug mode on, a selected model and its stored key,
  the notifier and the clipboard.
\<close>

definition full_page :: "16 word page" where
  "full_page =
     \<lparr>debugModal = Some hidden_element,
      debugInfoContent = Some shown_element,
      modelSelectMenuItem = Some shown_element,
      debugInfoMenuItem = Some shown_element,
      enabled = False,
      serverMode = True,
      lastApiCall = None,
      lastModelList = None,
      defaultPrompt = [],
      current = Some (js ''gemini/gemini-2.0-flash''),
      localStorage = [selected_model_key \<mapsto> js ''gemini/gemini-2.0-flash''],
      showToast = True,
      navigator_clipboard = True,
      toasts = [],
      clipboard = [],
      console = [],
      fetched = []\<rparr>"

text \<open>The same page without any of the four elements.\<close>

definition bare_page :: "16 word page" where
  "bare_page =
     full_page\<lparr>debugModal := None, debugInfoContent := None,
               modelSelectMenuItem := None, debugInfoMenuItem := None\<rparr>"

text \<open>The two configuration responses of claim C3.\<close>

definition debug_off :: config where
  "debug_off = \<lparr>debug_mode = Some False, default_system_prompt = None\<rparr>"

definition debug_on :: config where
  "debug_on = \<lparr>debug_mode = Some True, default_system_prompt = None\<rparr>"

text \<open>A recorded call and two debug snapshots, the second with a value that does not
  convert to a string.\<close>

definition sample_call :: "16 word api_call" where
  "sample_call =
     \<lparr>timestamp = js ''2026-01-01T00:00:00.000Z'',
      endpoint = js ''/api/chat'',
      http_method = js ''POST'',
      status = JNum 200,
      error = JNull,
      request = JObj [(js ''text'', JStr (js ''a<b'')), (image_data, JStr (js ''[Image: 4 chars]''))],
      response = JArr []\<rparr>"

definition sample_models :: "16 word model_catalog" where
  "sample_models =
     \<lparr>recommended_count = 1, total_count = 2,
      raw_list = [JStr (js ''<script>''), JObj [(js ''id'', JStr (js ''m1''))]]\<rparr>"

definition sample_snapshot :: "16 word snapshot" where
  "sample_snapshot =
     \<lparr>data_timestamp = Some (js ''2026-01-01T00:00:00''),
      cors = Some \<lparr>allowed_origins = [js ''http://localhost:8000'', js ''https://memo.example''],
                   is_restricted = True, detected_platform = None\<rparr>,
      environment = Some [(js ''python'', JStr (js ''3.12'')), (js ''workers'', JNum 4)],
      env_vars = None,
      models = Some sample_models\<rparr>"

definition odd_snapshot :: "16 word snapshot" where
  "odd_snapshot =
     sample_snapshot\<lparr>env_vars := Some [(js ''FLAGS'', JObj [(js ''toString'', JNum 1)])]\<rparr>"

section \<open>Properties of decimal texts\<close>

lemma unat_digit: "d < 10 \<Longrightarrow> unat (digit d) = 48 + d"
  unfolding digit_def unat_of_nat by simp

lemma digit_value_digit: "d < 10 \<Longrightarrow> digit_value (digit d) = d"
  by (simp add: digit_value_def unat_digit)

lemma read_nat_snoc: "read_nat (s @ [c]) = 10 * read_nat s + digit_value c"
  by (simp add: read_nat_def)

lemma read_show_nat: "read_nat (show_nat n) = n"
proof (induction n rule: show_nat.induct)
  case (1 n)
  show ?case
  proof (cases "n < 10")
    case True
    then show ?thesis
      by (subst show_nat.simps) (simp add: read_nat_def digit_value_digit)
  next
    case False
    with 1 have "read_nat (show_nat (n div 10)) = n div 10" by simp
    with False show ?thesis
      by (subst show_nat.simps) (simp add: read_nat_snoc digit_value_digit)
  qed
qed

lemma length_js: "length (js s) = length s"
  by (simp add: js_def)

lemma placeholder_length_image: "placeholder_length (image_placeholder n) = n"
  by (simp add: placeholder_length_def image_placeholder_def length_js read_show_nat)

lemma is_digit_unit_digit: "d < 10 \<Longrightarrow> is_digit_unit (digit d)"
  by (simp add: is_digit_unit_def word_le_nat_alt unat_digit)

lemma show_nat_digits: "list_all is_digit_unit (show_nat n)"
proof (induction n rule: show_nat.induct)
  case (1 n)
  show ?case
  proof (cases "n < 10")
    case True
    then show ?thesis
      by (subst show_nat.simps) (simp add: is_digit_unit_digit)
  next
    case False
    with 1 show ?thesis
      by (subst show_nat.simps) (simp add: is_digit_unit_digit)
  qed
qed

lemma show_nat_not_empty: "show_nat n \<noteq> []"
  by (subst show_nat.simps) simp

lemma digit_not_zero: "0 < d \<Longrightarrow> d < 10 \<Longrightarrow> digit d \<noteq> 0x30"
proof
  assume "0 < d" "d < 10" "digit d = 0x30"
  then have "unat (digit d) = unat (0x30 :: 16 word)" by simp
  with \<open>d < 10\<close> \<open>0 < d\<close> show False by (simp add: unat_digit)
qed

lemma show_nat_head: "0 < n \<Longrightarrow> hd (show_nat n) \<noteq> 0x30"
proof (induction n rule: show_nat.induct)
  case (1 n)
  show ?case
  proof (cases "n < 10")
    case True
    with 1(2) show ?thesis
      by (subst show_nat.simps) (simp add: digit_not_zero)
  next
    case False
    with 1 have "hd (show_nat (n div 10)) \<noteq> 0x30" by simp
    with False show ?thesis
      by (subst show_nat.simps) (simp add: show_nat_not_empty)
  qed
qed

lemma show_nat_no_leading_zero: "length (show_nat n) = 1 \<or> hd (show_nat n) \<noteq> 0x30"
proof (cases "n = 0")
  case True
  then show ?thesis by (subst show_nat.simps) simp
next
  case False
  then show ?thesis by (simp add: show_nat_head)
qed

text \<open>The decimal text of an index consists of digits, so it is never the key.\<close>

lemma show_nat_neq_image_data: "show_nat i \<noteq> image_data"
proof
  assume "show_nat i = image_data"
  then have "list_all is_digit_unit image_data"
    using show_nat_digits [of i] by simp
  then show False
    by (simp add: image_data_def js_def is_digit_unit_def)
qed

lemma empty_neq_image_data: "[] \<noteq> image_data"
  by (simp add: image_data_def js_def)

text \<open>The engine of the examples reads back the numbers it prints.\<close>

lemma small_numbers_round_trip: "numbers_round_trip small_numbers"
proof -
  have "number_value small_numbers (number_text small_numbers w) = Some w
      \<and> number_text small_numbers w \<noteq> []
      \<and> list_all is_number_unit (number_text small_numbers w)
      \<and> (hd (number_text small_numbers w) = 0x2D
           \<or> (0x30 \<le> hd (number_text small_numbers w) \<and> hd (number_text small_numbers w) \<le> 0x39))"
    for w :: "16 word"
  proof -
    have lt: "unat w < 65536"
      using unsigned_less [of w] by simp
    have digits: "list_all is_digit_unit (show_nat (unat w))"
      by (rule show_nat_digits)
    then have units: "list_all is_number_unit (show_nat (unat w))"
      by (simp add: list_all_iff is_digit_unit_def is_number_unit_def)
    have "hd (show_nat (unat w)) \<in> set (show_nat (unat w))"
      by (simp add: show_nat_not_empty)
    with digits have "is_digit_unit (hd (show_nat (unat w)))"
      by (simp add: list_all_iff)
    then show ?thesis
      using lt digits units show_nat_no_leading_zero [of "unat w"]
      by (simp add: small_numbers_def show_nat_not_empty read_show_nat is_digit_unit_def)
  qed
  then show ?thesis
    unfolding numbers_round_trip_def by blast
qed

section \<open>Reading back what \<^verbatim>\<open>JSON.stringify\<close> writes\<close>

lemma skip_ws_append: "list_all is_ws w \<Longrightarrow> skip_ws (w @ s) = skip_ws s"
  by (induction w) (simp_all add: skip_ws_def)

lemma skip_ws_Cons: "\<not> is_ws c \<Longrightarrow> skip_ws (c # s) = c # s"
  by (simp add: skip_ws_def)

lemma list_all_ws_spaces:
  "list_all is_ws (newline @ spaces n)" "list_all is_ws (spaces n)" "list_all is_ws newline"
  by (simp_all add: newline_def spaces_def is_ws_def list_all_iff)

lemma hex_value_hex_digit: "d < 16 \<Longrightarrow> hex_value (hex_digit d) = Some d"
proof -
  assume "d < 16"
  then have "d = 0 \<or> d = 1 \<or> d = 2 \<or> d = 3 \<or> d = 4 \<or> d = 5 \<or> d = 6 \<or> d = 7 \<or> d = 8
      \<or> d = 9 \<or> d = 10 \<or> d = 11 \<or> d = 12 \<or> d = 13 \<or> d = 14 \<or> d = 15"
    by (simp add: less_Suc_eq numeral_eq_Suc)
  then show ?thesis
    by (elim disjE) (simp_all add: hex_value_def hex_digit_def)
qed

lemma hex4_unicode:
  "hex4 (hex_digit (unat c div 4096)) (hex_digit (unat c div 256 mod 16))
        (hex_digit (unat c div 16 mod 16)) (hex_digit (unat c mod 16)) = Some c"
proof -
  have "unat c < 65536"
    using unsigned_less [of c] by simp
  then have a: "unat c div 4096 < 16"
    by simp
  define u where "u = unat c"
  have x: "u div 16 div 16 = u div 256" and y: "u div 256 div 16 = u div 4096"
    by (simp_all add: div_mult2_eq [symmetric])
  have "u div 4096 * 16 + u div 256 mod 16 = u div 256"
    using div_mult_mod_eq [of "u div 256" 16] y by simp
  moreover have "u div 256 * 16 + u div 16 mod 16 = u div 16"
    using div_mult_mod_eq [of "u div 16" 16] x by simp
  moreover have "u div 16 * 16 + u mod 16 = u"
    using div_mult_mod_eq [of u 16] by simp
  ultimately have "((u div 4096 * 16 + u div 256 mod 16) * 16 + u div 16 mod 16) * 16
          + u mod 16 = u"
    by simp
  then have "((unat c div 4096 * 16 + unat c div 256 mod 16) * 16 + unat c div 16 mod 16) * 16
          + unat c mod 16 = unat c"
    by (simp add: u_def)
  then show ?thesis
    using a by (simp add: hex4_def hex_value_hex_digit)
qed

lemma unquote_unit: "unquote (quote_unit c @ rest) = cons_unit c (unquote rest)"
proof -
  have esc: "unquote (unicode_escape c @ rest) = cons_unit c (unquote rest)"
    by (simp add: unicode_escape_def hex4_unicode)
  have plain: "\<not> c < 0x20 \<Longrightarrow> c \<noteq> 0x22 \<Longrightarrow> c \<noteq> 0x5C \<Longrightarrow>
      unquote (c # rest) = cons_unit c (unquote rest)"
    by simp
  show ?thesis
    unfolding quote_unit_def
    by (auto simp: esc unescape_def plain simp del: unquote.simps)
       (simp_all add: unescape_def)
qed

lemma surrogate_plain:
  "is_lead c \<or> is_trail c \<Longrightarrow> \<not> c < 0x20 \<and> c \<noteq> 0x22 \<and> c \<noteq> 0x5C"
  unfolding is_lead_def is_trail_def
  by (auto simp: word_le_nat_alt word_less_nat_alt)

lemma unquote_quote_units: "unquote (quote_units s @ 0x22 # rest) = Some (s, rest)"
proof (induction s rule: quote_units.induct)
  case (1 c d ds)
  show ?case
  proof (cases "is_lead c \<and> is_trail d")
    case True
    with 1 have "unquote (quote_units ds @ 0x22 # rest) = Some (ds, rest)"
      by simp
    moreover from True have "\<not> c < 0x20 \<and> c \<noteq> 0x22 \<and> c \<noteq> 0x5C"
      and "\<not> d < 0x20 \<and> d \<noteq> 0x22 \<and> d \<noteq> 0x5C"
      using surrogate_plain by blast+
    ultimately show ?thesis
      using True by (simp add: cons_unit_def)
  next
    case False
    with 1 have "unquote (quote_units (d # ds) @ 0x22 # rest) = Some (d # ds, rest)"
      by simp
    moreover from False
    have "quote_units (c # d # ds) = quote_unit c @ quote_units (d # ds)"
      by auto
    ultimately show ?thesis
      by (simp add: unquote_unit cons_unit_def del: unquote.simps quote_units.simps)
  qed
next
  case (2 c)
  have "unquote (quote_unit c @ 0x22 # rest) = cons_unit c (unquote (0x22 # rest))"
    by (rule unquote_unit)
  then show ?case
    by (simp add: cons_unit_def)
next
  case 3
  show ?case by simp
qed

lemma unquote_quote: "quote s @ rest = 0x22 # t \<Longrightarrow> unquote t = Some (s, rest)"
  by (auto simp: quote_def unquote_quote_units)


lemma serialize_plain:
  "serialize E False g i k v =
     (case v of
        JNull \<Rightarrow> js ''null''
      | JBool b \<Rightarrow> (if b then js ''true'' else js ''false'')
      | JNum n \<Rightarrow> number_text E n
      | JStr s \<Rightarrow> quote s
      | JArr xs \<Rightarrow> wrap g i (js ''['') (js '']'') (serialize_elements E False g (i + g) 0 xs)
      | JObj kvs \<Rightarrow> wrap g i (js ''{'') (js ''}'') (serialize_members E False g (i + g) kvs))"
  by (subst serialize.simps) simp

lemma serialize_elements_empty: "serialize_elements E r g i n xs = [] \<longleftrightarrow> xs = []"
  by (cases xs) simp_all

lemma serialize_members_empty: "serialize_members E r g i kvs = [] \<longleftrightarrow> kvs = []"
  by (cases kvs) auto

lemma number_text_head:
  assumes "numbers_round_trip E"
  obtains c cs where "number_text E n = c # cs" "c = 0x2D \<or> (0x30 \<le> c \<and> c \<le> 0x39)"
    "list_all is_number_unit (c # cs)" "number_value E (c # cs) = Some n"
proof -
  from assms have a: "number_value E (number_text E n) = Some n" "number_text E n \<noteq> []"
    "list_all is_number_unit (number_text E n)"
    "hd (number_text E n) = 0x2D
      \<or> (0x30 \<le> hd (number_text E n) \<and> hd (number_text E n) \<le> 0x39)"
    unfolding numbers_round_trip_def by blast+
  then obtain c cs where "number_text E n = c # cs"
    by (cases "number_text E n") auto
  with a that show thesis
    by auto
qed

lemma number_head_plain:
  "c = 0x2D \<or> (0x30 \<le> c \<and> c \<le> (0x39 :: 16 word)) \<Longrightarrow>
   \<not> is_ws c \<and> c \<noteq> 0x5D \<and> c \<noteq> 0x7D \<and> c \<noteq> 0x2C \<and> c \<noteq> 0x7B \<and> c \<noteq> 0x5B \<and> c \<noteq> 0x22
   \<and> c \<noteq> 0x74 \<and> c \<noteq> 0x66 \<and> c \<noteq> 0x6E"
  by (auto simp: is_ws_def)

text \<open>The text of a value starts with a character that is neither white space nor a
  closing bracket, a closing brace or a comma.\<close>

lemma serialize_head:
  assumes "numbers_round_trip E"
  shows "\<exists>c cs. serialize E False g i k v = c # cs
           \<and> \<not> is_ws c \<and> c \<noteq> 0x5D \<and> c \<noteq> 0x7D \<and> c \<noteq> 0x2C"
proof (cases v)
  case (JNum n)
  obtain c cs where "number_text E n = c # cs" "c = 0x2D \<or> (0x30 \<le> c \<and> c \<le> 0x39)"
    using number_text_head [OF assms] by metis
  with JNum show ?thesis
    using number_head_plain [of c] by (simp add: serialize_plain)
qed (simp_all add: serialize_plain js_def quote_def wrap_def is_ws_def)

lemma parse_value_ws: "list_all is_ws w \<Longrightarrow> parse_value E (w @ s) = parse_value E s"
  by (simp add: parse_value.simps skip_ws_append)

lemma parse_null: "parse_value E (js ''null'' @ rest) = Some (JNull, rest)"
  by (simp add: parse_value.simps js_def skip_ws_def is_ws_def)

lemma parse_true: "parse_value E (js ''true'' @ rest) = Some (JBool True, rest)"
  by (simp add: parse_value.simps js_def skip_ws_def is_ws_def)

lemma parse_false: "parse_value E (js ''false'' @ rest) = Some (JBool False, rest)"
  by (simp add: parse_value.simps js_def skip_ws_def is_ws_def)

lemma parse_string: "parse_value E (quote s @ rest) = Some (JStr s, rest)"
  by (simp add: parse_value.simps quote_def skip_ws_def is_ws_def unquote_quote_units
        del: unquote.simps)

lemma parse_number:
  assumes "numbers_round_trip E" and "delimited rest"
  shows "parse_value E (number_text E n @ rest) = Some (JNum n, rest)"
proof -
  obtain c cs where t: "number_text E n = c # cs"
    and c: "c = 0x2D \<or> (0x30 \<le> c \<and> c \<le> 0x39)"
    and units: "list_all is_number_unit (c # cs)"
    and val: "number_value E (c # cs) = Some n"
    using number_text_head [OF assms(1)] by metis
  from units have all: "\<forall>x\<in>set (c # cs). is_number_unit x"
    by (simp add: list_all_iff)
  from assms(2) have "takeWhile is_number_unit rest = []" "dropWhile is_number_unit rest = rest"
    by (cases rest; simp add: delimited_def)+
  with all have tw: "takeWhile is_number_unit ((c # cs) @ rest) = c # cs"
    and dw: "dropWhile is_number_unit ((c # cs) @ rest) = rest"
    by (simp_all only: takeWhile_append2 dropWhile_append2 append_Nil2)
  have "parse_value E ((c # cs) @ rest) = Some (JNum n, rest)"
    using number_head_plain [OF c] tw dw val units
    by (subst parse_value.simps) (simp add: skip_ws_def js_def)
  with t show ?thesis by simp
qed

lemma parse_empty_array: "parse_value E (js ''['' @ js '']'' @ rest) = Some (JArr [], rest)"
  by (simp add: parse_value.simps js_def skip_ws_def is_ws_def)

lemma parse_empty_object: "parse_value E (js ''{'' @ js ''}'' @ rest) = Some (JObj [], rest)"
  by (simp add: parse_value.simps js_def skip_ws_def is_ws_def)

lemma parse_array:
  "skip_ws body = d # ds \<Longrightarrow> d \<noteq> 0x5D \<Longrightarrow>
   parse_value E (js ''['' @ body) =
     (case parse_elements E body of None \<Rightarrow> None | Some (xs, rest) \<Rightarrow> Some (JArr xs, rest))"
  by (simp add: parse_value.simps js_def skip_ws_Cons is_ws_def)

lemma parse_object:
  "skip_ws body = d # ds \<Longrightarrow> d \<noteq> 0x7D \<Longrightarrow>
   parse_value E (js ''{'' @ body) =
     (case parse_members E body of None \<Rightarrow> None | Some (kvs, rest) \<Rightarrow> Some (JObj kvs, rest))"
  by (simp add: parse_value.simps js_def skip_ws_Cons is_ws_def)

lemma delimited_simps [simp]:
  "delimited []" "delimited (0x5D # s)" "delimited (0x7D # s)" "delimited (0x2C # s)"
  "is_ws c \<Longrightarrow> delimited (c # s)"
  by (auto simp: delimited_def is_number_unit_def is_ws_def)

lemma delimited_ws: "list_all is_ws w \<Longrightarrow> delimited s \<Longrightarrow> delimited (w @ s)"
  by (cases w) simp_all

text \<open>One element, then either the end of the array or the next elements.\<close>

lemma parse_elements_step:
  assumes "parse_value E s = Some (x, w @ c # rest)" and "list_all is_ws w"
    and "length (w @ c # rest) < length s" and "\<not> is_ws c"
  shows "parse_elements E s =
     (if c = 0x2C then
        (case parse_elements E rest of None \<Rightarrow> None | Some (xs, rest') \<Rightarrow> Some (x # xs, rest'))
      else if c = 0x5D then Some ([x], rest) else None)"
proof -
  from assms(2,4) have "skip_ws (w @ c # rest) = c # rest"
    by (simp add: skip_ws_append skip_ws_Cons)
  with assms(1,3) show ?thesis
    by (subst parse_elements.simps) simp
qed

lemma parse_members_step:
  assumes "list_all is_ws w0" and "list_all is_ws w1" and "list_all is_ws w2"
    and "parse_value E s = Some (v, w2 @ c # rest)"
    and "length (w2 @ c # rest) < length s" and "\<not> is_ws c"
  shows "parse_members E (w0 @ quote k @ js '':'' @ w1 @ s) =
     (if c = 0x2C then
        (case parse_members E rest of None \<Rightarrow> None | Some (kvs, rest') \<Rightarrow> Some ((k, v) # kvs, rest'))
      else if c = 0x7D then Some ([(k, v)], rest) else None)"
proof -
  from assms(3,6) have a: "skip_ws (w2 @ c # rest) = c # rest"
    by (simp add: skip_ws_append skip_ws_Cons)
  have b: "skip_ws (w0 @ quote k @ js '':'' @ w1 @ s)
      = 0x22 # quote_units k @ 0x22 # 0x3A # w1 @ s"
    using assms(1) by (simp add: skip_ws_append skip_ws_Cons quote_def js_def is_ws_def)
  have c: "skip_ws (0x3A # w1 @ s) = 0x3A # w1 @ s"
    by (simp add: skip_ws_Cons is_ws_def)
  have d: "parse_value E (w1 @ s) = Some (v, w2 @ c # rest)"
    using assms(2,4) by (simp add: parse_value_ws)
  have e: "length (w2 @ c # rest) < length (w1 @ s)"
    using assms(5) by simp
  have f: "length (w1 @ s) < length (w0 @ quote k @ js '':'' @ w1 @ s)"
    by (simp add: js_def)
  show ?thesis
    apply (subst parse_members.simps)
    apply (simp only: b list.case if_True unquote_quote_units option.case prod.case c)
    using a d e f apply simp
    done
qed

lemma join_Cons: "ys \<noteq> [] \<Longrightarrow> join sep (x # ys) = x @ sep @ join sep ys"
  by (cases ys) simp_all

lemma parse_serialize:
  shows "numbers_round_trip E \<Longrightarrow> \<not> r \<Longrightarrow> delimited rest \<Longrightarrow>
           parse_value E (serialize E r g i k v @ rest) = Some (v, rest)"
    and "numbers_round_trip E \<Longrightarrow> \<not> r \<Longrightarrow> xs \<noteq> [] \<Longrightarrow> list_all is_ws w0 \<Longrightarrow> list_all is_ws w1 \<Longrightarrow> list_all is_ws w2 \<Longrightarrow>
           parse_elements E (w0 @ join (0x2C # w1) (serialize_elements E r g i n xs)
                               @ w2 @ 0x5D # rest) = Some (xs, rest)"
    and "numbers_round_trip E \<Longrightarrow> \<not> r \<Longrightarrow> kvs \<noteq> [] \<Longrightarrow> list_all is_ws w0 \<Longrightarrow> list_all is_ws w1 \<Longrightarrow> list_all is_ws w2 \<Longrightarrow>
           parse_members E (w0 @ join (0x2C # w1) (serialize_members E r g i kvs)
                              @ w2 @ 0x7D # rest) = Some (kvs, rest)"
proof (induction E r g i k v and E r g i n xs and E r g i kvs
    arbitrary: rest and rest w0 w1 w2 and rest w0 w1 w2
    rule: serialize_serialize_elements_serialize_members.induct)
  case (1 E r g i k v)
  then have r: "r = False" by simp
  show ?case
  proof (cases v)
    case JNull
    then show ?thesis by (simp add: r serialize_plain parse_null)
  next
    case (JBool b)
    then show ?thesis by (simp add: r serialize_plain parse_true parse_false)
  next
    case (JNum n)
    then show ?thesis
      using parse_number [OF "1.prems"(1) "1.prems"(3)] by (simp add: r serialize_plain)
  next
    case (JStr s)
    then show ?thesis by (simp add: r serialize_plain parse_string)
  next
    case (JArr xs)
    show ?thesis
    proof (cases "xs = []")
      case True
      with JArr show ?thesis
        using parse_empty_array [of E rest]
        by (simp add: r serialize_plain wrap_def)
    next
      case False
      define texts where "texts = serialize_elements E False g (i + g) 0 xs"
      define w0 where "w0 = (if g = 0 then [] else newline @ spaces (i + g))"
      define w2 where "w2 = (if g = 0 then [] else newline @ spaces i)"
      have ws: "list_all is_ws w0" "list_all is_ws w2"
        by (simp_all add: w0_def w2_def list_all_ws_spaces)
      have t: "serialize E False g i k v @ rest
          = js ''['' @ (w0 @ join (0x2C # w0) texts @ w2 @ 0x5D # rest)"
        using False JArr
        by (simp add: serialize_plain wrap_def texts_def w0_def w2_def
            serialize_elements_empty js_def)
      have elements: "parse_elements E (w0 @ join (0x2C # w0) texts @ w2 @ 0x5D # rest)
          = Some (xs, rest)"
        unfolding texts_def
        using "1.IH"(1) [of xs w0 w0 w2 rest] JArr False r "1.prems"(1) ws by simp
      obtain x xs' where xs: "xs = x # xs'"
        using False by (cases xs) auto
      obtain c cs where h: "serialize E False g (i + g) (show_nat 0) x = c # cs"
        "\<not> is_ws c" "c \<noteq> 0x5D"
        using serialize_head [OF "1.prems"(1)] by metis
      have "join (0x2C # w0) texts = c # cs @ (if xs' = [] then [] else (0x2C # w0) @ join (0x2C # w0) (serialize_elements E False g (i + g) (Suc 0) xs'))"
        unfolding texts_def xs
        by (cases xs') (simp_all add: h)
      then have "skip_ws (w0 @ join (0x2C # w0) texts @ w2 @ 0x5D # rest)
          = c # (cs @ (if xs' = [] then [] else (0x2C # w0) @ join (0x2C # w0) (serialize_elements E False g (i + g) (Suc 0) xs'))) @ w2 @ 0x5D # rest"
        using ws h by (simp add: skip_ws_append skip_ws_Cons)
      from parse_array [OF this h(3), of E] elements t JArr
      show ?thesis by (simp add: r)
    qed
  next
    case (JObj kvs)
    show ?thesis
    proof (cases "kvs = []")
      case True
      with JObj show ?thesis
        using parse_empty_object [of E rest]
        by (simp add: r serialize_plain wrap_def)
    next
      case False
      define texts where "texts = serialize_members E False g (i + g) kvs"
      define w0 where "w0 = (if g = 0 then [] else newline @ spaces (i + g))"
      define w2 where "w2 = (if g = 0 then [] else newline @ spaces i)"
      have ws: "list_all is_ws w0" "list_all is_ws w2"
        by (simp_all add: w0_def w2_def list_all_ws_spaces)
      have t: "serialize E False g i k v @ rest
          = js ''{'' @ (w0 @ join (0x2C # w0) texts @ w2 @ 0x7D # rest)"
        using False JObj
        by (simp add: serialize_plain wrap_def texts_def w0_def w2_def
            serialize_members_empty js_def)
      have members: "parse_members E (w0 @ join (0x2C # w0) texts @ w2 @ 0x7D # rest)
          = Some (kvs, rest)"
        unfolding texts_def
        using "1.IH"(2) [of kvs w0 w0 w2 rest] JObj False r "1.prems"(1) ws by simp
      obtain key val kvs' where kvs: "kvs = (key, val) # kvs'"
        using False by (cases kvs) auto
      obtain tail where "join (0x2C # w0) texts = 0x22 # tail"
        unfolding texts_def kvs
        by (cases kvs') (auto simp: quote_def)
      then have "skip_ws (w0 @ join (0x2C # w0) texts @ w2 @ 0x7D # rest)
          = 0x22 # tail @ w2 @ 0x7D # rest"
        using ws by (simp add: skip_ws_append skip_ws_Cons is_ws_def)
      from parse_object [OF this, of E] members t JObj
      show ?thesis by (simp add: r)
    qed
  qed
next
  case (2 E r g i n)
  then show ?case by simp
next
  case (3 E r g i n x xs)
  then have r: "r = False" by simp
  define sx where "sx = serialize E False g i (show_nat n) x"
  obtain c cs where h: "sx = c # cs"
    unfolding sx_def using serialize_head [OF "3.prems"(1)] by metis
  show ?case
  proof (cases "xs = []")
    case True
    have "delimited (w2 @ 0x5D # rest)"
      using "3.prems"(6) by (simp add: delimited_ws)
    then have "parse_value E (sx @ w2 @ 0x5D # rest) = Some (x, w2 @ 0x5D # rest)"
      unfolding sx_def using "3.IH"(1) [of "w2 @ 0x5D # rest"] r "3.prems"(1) by simp
    then have "parse_value E (w0 @ sx @ w2 @ 0x5D # rest) = Some (x, w2 @ 0x5D # rest)"
      using "3.prems"(4) by (simp add: parse_value_ws)
    from parse_elements_step [OF this "3.prems"(6)] True
    show ?thesis
      by (simp add: r sx_def [symmetric] h is_ws_def)
  next
    case False
    define more where "more = join (0x2C # w1) (serialize_elements E False g i (Suc n) xs)"
    have j: "join (0x2C # w1) (serialize_elements E r g i n (x # xs))
        = sx @ 0x2C # w1 @ more"
      using False by (simp add: r join_Cons serialize_elements_empty sx_def more_def)
    have "parse_value E (sx @ [] @ 0x2C # w1 @ more @ w2 @ 0x5D # rest)
        = Some (x, [] @ 0x2C # w1 @ more @ w2 @ 0x5D # rest)"
      unfolding sx_def
      using "3.IH"(1) [of "0x2C # w1 @ more @ w2 @ 0x5D # rest"] r "3.prems"(1) by simp
    then have "parse_value E (w0 @ sx @ 0x2C # w1 @ more @ w2 @ 0x5D # rest)
        = Some (x, [] @ 0x2C # w1 @ more @ w2 @ 0x5D # rest)"
      using "3.prems"(4) by (simp add: parse_value_ws)
    from parse_elements_step [OF this]
    have "parse_elements E (w0 @ sx @ 0x2C # w1 @ more @ w2 @ 0x5D # rest)
        = (case parse_elements E (w1 @ more @ w2 @ 0x5D # rest) of
             None \<Rightarrow> None | Some (ys, rest') \<Rightarrow> Some (x # ys, rest'))"
      by (simp add: h is_ws_def)
    moreover have "parse_elements E (w1 @ more @ w2 @ 0x5D # rest) = Some (xs, rest)"
      unfolding more_def
      using "3.IH"(2) [of w1 w1 w2 rest] False r "3.prems" by simp
    ultimately show ?thesis
      unfolding j by simp
  qed
next
  case (4 E r g i)
  then show ?case by simp
next
  case (5 E r g i k v kvs)
  then have r: "r = False" by simp
  define sv where "sv = serialize E False g i k v"
  define sp :: jstr where "sp = (if g = 0 then [] else js '' '')"
  have sp: "list_all is_ws sp"
    by (simp add: sp_def js_def is_ws_def)
  obtain c cs where h: "sv = c # cs"
    unfolding sv_def using serialize_head [OF "5.prems"(1)] by metis
  show ?case
  proof (cases "kvs = []")
    case True
    have "delimited (w2 @ 0x7D # rest)"
      using "5.prems"(6) by (simp add: delimited_ws)
    then have "parse_value E (sv @ w2 @ 0x7D # rest) = Some (v, w2 @ 0x7D # rest)"
      unfolding sv_def using "5.IH"(1) [of "w2 @ 0x7D # rest"] r "5.prems"(1) by simp
    from parse_members_step [OF "5.prems"(4) sp "5.prems"(6) this, of k] True
    show ?thesis
      by (simp add: r sv_def [symmetric] sp_def [symmetric] h is_ws_def)
  next
    case False
    define more where "more = join (0x2C # w1) (serialize_members E False g i kvs)"
    have j: "join (0x2C # w1) (serialize_members E r g i ((k, v) # kvs))
        = (quote k @ js '':'' @ sp @ sv) @ 0x2C # w1 @ more"
      using False by (simp add: r join_Cons serialize_members_empty sv_def sp_def more_def)
    have "parse_value E (sv @ [] @ 0x2C # w1 @ more @ w2 @ 0x7D # rest)
        = Some (v, [] @ 0x2C # w1 @ more @ w2 @ 0x7D # rest)"
      unfolding sv_def
      using "5.IH"(1) [of "0x2C # w1 @ more @ w2 @ 0x7D # rest"] r "5.prems"(1) by simp
    from parse_members_step [OF "5.prems"(4) sp _ this, of k]
    have "parse_members E (w0 @ quote k @ js '':'' @ sp @ sv @ 0x2C # w1 @ more @ w2 @ 0x7D # rest)
        = (case parse_members E (w1 @ more @ w2 @ 0x7D # rest) of
             None \<Rightarrow> None | Some (ys, rest') \<Rightarrow> Some ((k, v) # ys, rest'))"
      by (simp add: h is_ws_def)
    moreover have "parse_members E (w1 @ more @ w2 @ 0x7D # rest) = Some (kvs, rest)"
      unfolding more_def
      using "5.IH"(2) [of w1 w1 w2 rest] False r "5.prems" by simp
    ultimately show ?thesis
      unfolding j by simp
  qed
qed

text \<open>
  \<^verbatim>\<open>JSON.parse\<close> reads back the value from the text that \<^verbatim>\<open>JSON.stringify\<close> writes
  without a replacer, whatever the gap.
\<close>

lemma JSON_parse_stringify:
  "numbers_round_trip E \<Longrightarrow> JSON_parse E (JSON_stringify E False g v) = Some v"
  using parse_serialize(1) [of E False "[]" g 0 "[]" v]
  by (simp add: JSON_parse_def JSON_stringify_def skip_ws_def)

section \<open>Properties of the recorder\<close>

text \<open>
  With the replacer installed, \<^verbatim>\<open>JSON.stringify\<close> writes the text of the sanitised
  payload.
\<close>

lemma serialize_replaced:
  "r \<Longrightarrow> serialize E r g i k v =
     serialize E False g i k
       (case v of
          JStr s \<Rightarrow> if k = image_data then JStr (image_placeholder (length s)) else JStr s
        | _ \<Rightarrow> redacted v)"
  "r \<Longrightarrow> serialize_elements E r g i n xs = serialize_elements E False g i n (redacted_elements xs)"
  "r \<Longrightarrow> serialize_members E r g i kvs = serialize_members E False g i (redacted_fields kvs)"
proof (induction E r g i k v and E r g i n xs and E r g i kvs
    rule: serialize_serialize_elements_serialize_members.induct)
  case (1 E r g i k v)
  then have r: "r = True" by simp
  have "serialize E True g i k v =
     (case replacer k v of
        JNull \<Rightarrow> js ''null''
      | JBool b \<Rightarrow> (if b then js ''true'' else js ''false'')
      | JNum n \<Rightarrow> number_text E n
      | JStr s \<Rightarrow> quote s
      | JArr xs \<Rightarrow> wrap g i (js ''['') (js '']'') (serialize_elements E True g (i + g) 0 xs)
      | JObj kvs \<Rightarrow> wrap g i (js ''{'') (js ''}'') (serialize_members E True g (i + g) kvs))"
    by (subst serialize.simps) simp
  with 1 show ?case
    unfolding r by (cases v) (simp_all add: serialize_plain replacer_def)
next
  case (2 E r g i n)
  then show ?case by simp
next
  case (3 E r g i n x xs)
  then show ?case
    by (cases x) (simp_all add: show_nat_neq_image_data)
next
  case (4 E r g i)
  then show ?case by simp
next
  case (5 E r g i k v kvs)
  then show ?case by simp
qed

lemma sanitized_copy_redacted:
  assumes "numbers_round_trip E"
  shows "sanitized_copy E v = Inr (redacted v)"
proof -
  have "JSON_stringify E True 0 v = JSON_stringify E False 0 (redacted v)"
    using empty_neq_image_data
    by (cases v) (simp_all add: JSON_stringify_def serialize_replaced(1))
  then show ?thesis
    by (simp add: sanitized_copy_def JSON_parse_stringify [OF assms])
qed

lemma redacted_image_free:
  "image_free (v :: 'n json) \<Longrightarrow> redacted v = v"
  "image_free_elements (xs :: 'n json list) \<Longrightarrow> redacted_elements xs = xs"
  "image_free_fields (kvs :: (jstr \<times> 'n json) list) \<Longrightarrow> redacted_fields kvs = kvs"
proof (induction v and xs and kvs rule: redacted_redacted_elements_redacted_fields.induct)
  case (10 k v kvs)
  then show ?case by (cases v) auto
qed simp_all

text \<open>
  Payloads that differ only in the characters of their image strings have the same
  sanitised copy.
\<close>

lemma alike_redacted:
  "alike (v :: 'n json) w \<Longrightarrow> redacted v = redacted w"
  "alike_elements (xs :: 'n json list) ys \<Longrightarrow> redacted_elements xs = redacted_elements ys"
  "alike_fields (kvs :: (jstr \<times> 'n json) list) lws \<Longrightarrow> redacted_fields kvs = redacted_fields lws"
proof (induction v w and xs ys and kvs lws rule: alike_alike_elements_alike_fields.induct)
  case (1 xs w)
  then show ?case by (cases w) simp_all
next
  case (2 kvs w)
  then show ?case by (cases w) simp_all
next
  case (8 x xs ys)
  then show ?case by (cases ys) simp_all
next
  case (10 k v kvs lws)
  show ?case
  proof (cases lws)
    case Nil
    with 10 show ?thesis by simp
  next
    case (Cons lw lws')
    obtain l w where lw: "lw = (l, w)" by (cases lw)
    show ?thesis
    proof (cases v)
      case (JStr s)
      with 10 Cons lw show ?thesis
        by (cases w) (auto split: if_splits)
    qed (use 10 Cons lw in \<open>auto split: json.splits\<close>)
  qed
qed simp_all

text \<open>
  Claim C1. Whatever request and response payloads \<^verbatim>\<open>recordApiCall\<close> is given, the call
  returns and the stored record holds their sanitised copies: at any depth, a field
  keyed \<^verbatim>\<open>image_data\<close> whose value is a string of \<open>N\<close> characters holds the
  placeholder \<^verbatim>\<open>[Image: N chars]\<close> instead, from which \<open>N\<close> can be read back; every
  other field, and an \<^verbatim>\<open>image_data\<close> field whose value is not a string, is kept, so a
  payload without such a string is stored unchanged. The stored record holds nothing
  of the characters of an image string: two calls whose payloads differ only in those
  characters, the lengths being the same, store the same record.
\<close>

theorem recordApiCall_sanitises:
  "numbers_round_trip E \<Longrightarrow>
   recordApiCall E now ep m req resp err st p
     = Inr (p\<lparr>lastApiCall := Some
              \<lparr>timestamp = now, endpoint = ep, http_method = m,
               status = (case st of None \<Rightarrow> JNull | Some v \<Rightarrow> v),
               error = (case err of None \<Rightarrow> JNull | Some v \<Rightarrow> v),
               request = redacted req, response = redacted resp\<rparr>\<rparr>)
   \<and> redacted (JObj [(image_data, JStr s)])
       = JObj [(js ''image_data'', JStr (js ''[Image: '' @ show_nat (length s) @ js '' chars]''))]
   \<and> placeholder_length (js ''[Image: '' @ show_nat (length s) @ js '' chars]'') = length s
   \<and> (alike req req' \<and> alike resp resp' \<longrightarrow>
        recordApiCall E now ep m req' resp' err st p = recordApiCall E now ep m req resp err st p)
   \<and> (k \<noteq> js ''image_data'' \<longrightarrow> redacted (JObj [(k, JStr s)]) = JObj [(k, JStr s)])
   \<and> redacted (JObj [(image_data, JNum n)]) = JObj [(image_data, JNum n)]
   \<and> (image_free req \<longrightarrow> redacted req = req)
   \<and> (image_free resp \<longrightarrow> redacted resp = resp)"
proof -
  assume ok: "numbers_round_trip E"
  have stored: "recordApiCall E now ep m a b err st p
     = Inr (p\<lparr>lastApiCall := Some
              \<lparr>timestamp = now, endpoint = ep, http_method = m,
               status = (case st of None \<Rightarrow> JNull | Some v \<Rightarrow> v),
               error = (case err of None \<Rightarrow> JNull | Some v \<Rightarrow> v),
               request = redacted a, response = redacted b\<rparr>\<rparr>)" for a b
    by (simp add: recordApiCall_def sanitized_copy_redacted [OF ok])
  have same: "alike req req' \<and> alike resp resp' \<longrightarrow>
      recordApiCall E now ep m req' resp' err st p = recordApiCall E now ep m req resp err st p"
    using alike_redacted(1) [of req req'] alike_redacted(1) [of resp resp']
    by (auto simp: stored)
  have placeholder: "image_placeholder (length s) = js ''[Image: '' @ show_nat (length s) @ js '' chars]''"
    by (simp add: image_placeholder_def)
  have len: "placeholder_length (js ''[Image: '' @ show_nat (length s) @ js '' chars]'') = length s"
    using placeholder_length_image [of "length s"] by (simp add: placeholder)
  show ?thesis
    using stored [of req resp] same len
    by (simp add: placeholder redacted_image_free(1) image_data_def)
qed

text \<open>
  An instance: a chat request with a four-character image string, also inside a nested
  object, and a response whose \<^verbatim>\<open>image_data\<close> field is a number. A second request
  with another image string of four characters leaves the same record.
\<close>

theorem recordApiCall_sanitises_witness:
  "recordApiCall small_numbers (js ''2026-01-01T00:00:00.000Z'') (js ''/api/chat'') (js ''POST'')
       (JObj [(js ''text'', JStr (js ''hi'')), (js ''image_data'', JStr (js ''aGk='')),
              (js ''meta'', JObj [(js ''image_data'', JStr (js ''aGk=''))])])
       (JObj [(js ''items'', JArr [JObj [(js ''image_data'', JNum 3)]])])
       None (Some (JNum 200)) full_page
     = Inr (full_page\<lparr>lastApiCall := Some
         \<lparr>timestamp = js ''2026-01-01T00:00:00.000Z'', endpoint = js ''/api/chat'',
          http_method = js ''POST'', status = JNum 200, error = JNull,
          request = JObj [(js ''text'', JStr (js ''hi'')),
                          (js ''image_data'', JStr (js ''[Image: 4 chars]'')),
                          (js ''meta'', JObj [(js ''image_data'', JStr (js ''[Image: 4 chars]''))])],
          response = JObj [(js ''items'', JArr [JObj [(js ''image_data'', JNum 3)]])]\<rparr>\<rparr>)
   \<and> recordApiCall small_numbers (js ''2026-01-01T00:00:00.000Z'') (js ''/api/chat'') (js ''POST'')
       (JObj [(js ''text'', JStr (js ''hi'')), (js ''image_data'', JStr (js ''QUJD'')),
              (js ''meta'', JObj [(js ''image_data'', JStr (js ''AAAA''))])])
       (JObj [(js ''items'', JArr [JObj [(js ''image_data'', JNum 3)]])])
       None (Some (JNum 200)) full_page
     = recordApiCall small_numbers (js ''2026-01-01T00:00:00.000Z'') (js ''/api/chat'') (js ''POST'')
       (JObj [(js ''text'', JStr (js ''hi'')), (js ''image_data'', JStr (js ''aGk='')),
              (js ''meta'', JObj [(js ''image_data'', JStr (js ''aGk=''))])])
       (JObj [(js ''items'', JArr [JObj [(js ''image_data'', JNum 3)]])])
       None (Some (JNum 200)) full_page
   \<and> placeholder_length (js ''[Image: 4 chars]'') = 4"
proof -
  let ?req = "JObj [(js ''text'', JStr (js ''hi'')), (js ''image_data'', JStr (js ''aGk='')),
              (js ''meta'', JObj [(js ''image_data'', JStr (js ''aGk=''))])] :: 16 word json"
  let ?req' = "JObj [(js ''text'', JStr (js ''hi'')), (js ''image_data'', JStr (js ''QUJD'')),
              (js ''meta'', JObj [(js ''image_data'', JStr (js ''AAAA''))])] :: 16 word json"
  let ?resp = "JObj [(js ''items'', JArr [JObj [(js ''image_data'', JNum 3)]])] :: 16 word json"
  have req: "redacted ?req
      = JObj [(js ''text'', JStr (js ''hi'')),
              (js ''image_data'', JStr (js ''[Image: 4 chars]'')),
              (js ''meta'', JObj [(js ''image_data'', JStr (js ''[Image: 4 chars]''))])]"
    by code_simp
  have resp: "redacted ?resp = ?resp"
    by code_simp
  have alike: "alike ?req ?req'" "alike ?resp ?resp"
    by code_simp+
  have four: "show_nat (length (js ''aGk='')) = js ''4''"
    by code_simp
  have text4: "js ''[Image: '' @ js ''4'' @ js '' chars]'' = js ''[Image: 4 chars]''"
    by (simp add: js_def)
  note t = recordApiCall_sanitises [OF small_numbers_round_trip,
      of "js ''2026-01-01T00:00:00.000Z''" "js ''/api/chat''" "js ''POST''" ?req ?resp
         None "Some (JNum 200)" full_page "js ''aGk=''" ?req' ?resp "[]" 0]
  have a: "recordApiCall small_numbers (js ''2026-01-01T00:00:00.000Z'') (js ''/api/chat'')
       (js ''POST'') ?req ?resp None (Some (JNum 200)) full_page
     = Inr (full_page\<lparr>lastApiCall := Some
         \<lparr>timestamp = js ''2026-01-01T00:00:00.000Z'', endpoint = js ''/api/chat'',
          http_method = js ''POST'', status = JNum 200, error = JNull,
          request = redacted ?req, response = redacted ?resp\<rparr>\<rparr>)"
    using t [THEN conjunct1] by (simp del: redacted.simps)
  have b: "recordApiCall small_numbers (js ''2026-01-01T00:00:00.000Z'') (js ''/api/chat'')
       (js ''POST'') ?req' ?resp None (Some (JNum 200)) full_page
     = recordApiCall small_numbers (js ''2026-01-01T00:00:00.000Z'') (js ''/api/chat'')
       (js ''POST'') ?req ?resp None (Some (JNum 200)) full_page"
    using t [THEN conjunct2, THEN conjunct2, THEN conjunct2, THEN conjunct1] alike by blast
  have "placeholder_length (js ''[Image: '' @ show_nat (length (js ''aGk='')) @ js '' chars]'')
      = length (js ''aGk='')"
    using t [THEN conjunct2, THEN conjunct2, THEN conjunct1] .
  then have c: "placeholder_length (js ''[Image: 4 chars]'') = 4"
    unfolding four text4 by (simp add: js_def)
  show ?thesis
    using a b c unfolding req resp by simp
qed

section \<open>Properties of the debug-mode gate\<close>

lemma updateDebugModeUI_fields:
  "serverMode (updateDebugModeUI p) = serverMode p"
  "modelSelectMenuItem (updateDebugModeUI p) =
     map_option (\<lambda>item. item\<lparr>display := (if serverMode p then [] else js ''none'')\<rparr>)
       (modelSelectMenuItem p)"
  "debugInfoMenuItem (updateDebugModeUI p) =
     map_option (\<lambda>item. item\<lparr>display := (if serverMode p then [] else js ''none'')\<rparr>)
       (debugInfoMenuItem p)"
  "current (updateDebugModeUI p) =
     (if modelSelectMenuItem p \<noteq> None \<and> \<not> serverMode p then None else current p)"
  "localStorage (updateDebugModeUI p) =
     (if modelSelectMenuItem p \<noteq> None \<and> \<not> serverMode p
      then (localStorage p)(selected_model_key := None) else localStorage p)"
  by (auto simp: updateDebugModeUI_def console_call_def Let_def split: option.splits)

lemma initializeDebugMode_parsed:
  "ok code \<Longrightarrow>
   serverMode (initializeDebugMode (Response code txt (Parsed c)) p)
     = (case debug_mode c of None \<Rightarrow> False | Some d \<Rightarrow> d)
   \<and> modelSelectMenuItem (initializeDebugMode (Response code txt (Parsed c)) p)
     = map_option (\<lambda>item. item\<lparr>display :=
         (if (case debug_mode c of None \<Rightarrow> False | Some d \<Rightarrow> d) then [] else js ''none'')\<rparr>)
        (modelSelectMenuItem p)
   \<and> debugInfoMenuItem (initializeDebugMode (Response code txt (Parsed c)) p)
     = map_option (\<lambda>item. item\<lparr>display :=
         (if (case debug_mode c of None \<Rightarrow> False | Some d \<Rightarrow> d) then [] else js ''none'')\<rparr>)
        (debugInfoMenuItem p)
   \<and> current (initializeDebugMode (Response code txt (Parsed c)) p)
     = (if modelSelectMenuItem p \<noteq> None \<and> \<not> (case debug_mode c of None \<Rightarrow> False | Some d \<Rightarrow> d)
        then None else current p)
   \<and> localStorage (initializeDebugMode (Response code txt (Parsed c)) p)
     = (if modelSelectMenuItem p \<noteq> None \<and> \<not> (case debug_mode c of None \<Rightarrow> False | Some d \<Rightarrow> d)
        then (localStorage p)(selected_model_key := None) else localStorage p)"
  by (auto simp: initializeDebugMode_def Let_def updateDebugModeUI_fields console_call_def
        split: option.splits)

lemma initializeDebugMode_thrown:
  "res = Rejected msg \<or> (\<exists>code txt. res = Response code txt (Malformed msg) \<and> ok code) \<Longrightarrow>
   serverMode (initializeDebugMode res p) = False
   \<and> modelSelectMenuItem (initializeDebugMode res p)
     = map_option (\<lambda>item. item\<lparr>display := js ''none''\<rparr>) (modelSelectMenuItem p)
   \<and> debugInfoMenuItem (initializeDebugMode res p)
     = map_option (\<lambda>item. item\<lparr>display := js ''none''\<rparr>) (debugInfoMenuItem p)
   \<and> current (initializeDebugMode res p)
     = (if modelSelectMenuItem p \<noteq> None then None else current p)
   \<and> localStorage (initializeDebugMode res p)
     = (if modelSelectMenuItem p \<noteq> None
        then (localStorage p)(selected_model_key := None) else localStorage p)"
  by (auto simp: initializeDebugMode_def config_failed_def Let_def updateDebugModeUI_fields
        console_call_def)

lemma initializeDebugMode_bad_status:
  "\<not> ok code \<Longrightarrow>
   initializeDebugMode (Response code txt b) p
     = p\<lparr>console := console p @ [(WARN,
            [JStr (js ''[DEBUG_MODE] Failed to fetch config, assuming debug_mode=false'')])],
          fetched := fetched p @ [config_url]\<rparr>"
  by (simp add: initializeDebugMode_def console_call_def)

text \<open>
  Claim C2. The claim asks that every failure of the configuration fetch sets the debug
  flag to false and applies the gate. A rejected fetch and a body that does not parse
  do: the flag is false and both items, where present, are hidden, as after an explicit
  \<^verbatim>\<open>debug_mode: false\<close>. A response with a status outside 200 to 299 does not:
  \<^verbatim>\<open>initializeDebugMode\<close> returns after its warning, and the flag, both items, the
  selected model and the storage are what they were before the call.
\<close>

theorem initializeDebugMode_bad_status_skips_gate:
  "(\<not> ok code \<longrightarrow>
      serverMode (initializeDebugMode (Response code statusText b) p) = serverMode p
      \<and> modelSelectMenuItem (initializeDebugMode (Response code statusText b) p) = modelSelectMenuItem p
      \<and> debugInfoMenuItem (initializeDebugMode (Response code statusText b) p) = debugInfoMenuItem p
      \<and> current (initializeDebugMode (Response code statusText b) p) = current p
      \<and> localStorage (initializeDebugMode (Response code statusText b) p) = localStorage p)
   \<and> (res = Rejected msg \<or> (ok code' \<and> res = Response code' statusText' (Malformed msg)) \<longrightarrow>
      serverMode (initializeDebugMode res p) = False
      \<and> modelSelectMenuItem (initializeDebugMode res p)
          = modelSelectMenuItem (initializeDebugMode (Response 200 statusText (Parsed debug_off)) p)
      \<and> debugInfoMenuItem (initializeDebugMode res p)
          = debugInfoMenuItem (initializeDebugMode (Response 200 statusText (Parsed debug_off)) p)
      \<and> modelSelectMenuItem (initializeDebugMode res p)
          = map_option (\<lambda>item. item\<lparr>display := js ''none''\<rparr>) (modelSelectMenuItem p)
      \<and> debugInfoMenuItem (initializeDebugMode res p)
          = map_option (\<lambda>item. item\<lparr>display := js ''none''\<rparr>) (debugInfoMenuItem p))"
proof -
  have k: "ok 200"
    by (simp add: ok_def)
  have thrown: "res = Rejected msg \<or> (ok code' \<and> res = Response code' statusText' (Malformed msg)) \<Longrightarrow>
      res = Rejected msg \<or> (\<exists>code statusText. res = Response code statusText (Malformed msg) \<and> ok code)"
    by blast
  show ?thesis
    using initializeDebugMode_thrown [OF thrown, of p]
      initializeDebugMode_parsed [OF k, of statusText debug_off p]
    by (auto simp: initializeDebugMode_bad_status debug_off_def)
qed

text \<open>
  On a page in debug mode with both items shown, a response with status 500 leaves the
  flag true and the items shown, while a rejected fetch turns the flag off and hides
  them.
\<close>

theorem initializeDebugMode_bad_status_skips_gate_witness:
  "\<not> ok 500
   \<and> serverMode (initializeDebugMode (Response 500 (js ''Internal Server Error'') (Malformed []))
        full_page) = True
   \<and> map_option display (modelSelectMenuItem (initializeDebugMode
        (Response 500 (js ''Internal Server Error'') (Malformed [])) full_page)) = Some []
   \<and> map_option display (debugInfoMenuItem (initializeDebugMode
        (Response 500 (js ''Internal Server Error'') (Malformed [])) full_page)) = Some []
   \<and> serverMode (initializeDebugMode (Rejected (js ''Failed to fetch'')) full_page) = False
   \<and> map_option display (modelSelectMenuItem (initializeDebugMode
        (Rejected (js ''Failed to fetch'')) full_page)) = Some (js ''none'')
   \<and> map_option display (modelSelectMenuItem (initializeDebugMode
        (Response 200 (js ''OK'') (Parsed debug_off)) full_page)) = Some (js ''none'')"
proof -
  let ?bad = "Response 500 (js ''Internal Server Error'') (Malformed []) :: config fetch_result"
  let ?rejected = "Rejected (js ''Failed to fetch'') :: config fetch_result"
  have k: "\<not> ok 500"
    by (simp add: ok_def)
  have page: "serverMode full_page" "modelSelectMenuItem full_page = Some shown_element"
    "debugInfoMenuItem full_page = Some shown_element" "display shown_element = []"
    by (simp_all add: full_page_def shown_element_def)
  note bad = initializeDebugMode_bad_status_skips_gate [where code = 500
      and statusText = "js ''Internal Server Error''" and b = "Malformed []" and p = full_page
      and res = ?rejected and msg = "js ''Failed to fetch''"]
  note rejected = initializeDebugMode_bad_status_skips_gate [where code = 500
      and statusText = "js ''OK''" and b = "Malformed []" and p = full_page
      and res = ?rejected and msg = "js ''Failed to fetch''"]
  have "serverMode (initializeDebugMode ?bad full_page) = serverMode full_page"
    and "modelSelectMenuItem (initializeDebugMode ?bad full_page) = modelSelectMenuItem full_page"
    and "debugInfoMenuItem (initializeDebugMode ?bad full_page) = debugInfoMenuItem full_page"
    using bad k by blast+
  moreover have "serverMode (initializeDebugMode ?rejected full_page) = False"
    and hidden: "modelSelectMenuItem (initializeDebugMode ?rejected full_page)
      = map_option (\<lambda>item. item\<lparr>display := js ''none''\<rparr>) (modelSelectMenuItem full_page)"
    and same: "modelSelectMenuItem (initializeDebugMode ?rejected full_page)
      = modelSelectMenuItem (initializeDebugMode (Response 200 (js ''OK'') (Parsed debug_off)) full_page)"
    using rejected by blast+
  moreover from hidden same
  have "modelSelectMenuItem (initializeDebugMode (Response 200 (js ''OK'') (Parsed debug_off)) full_page)
      = map_option (\<lambda>item. item\<lparr>display := js ''none''\<rparr>) (modelSelectMenuItem full_page)"
    by simp
  ultimately show ?thesis
    using k by (simp add: page)
qed

text \<open>
  Claim C3, as amended. After a configuration fetch that returns \<^verbatim>\<open>debug_mode: false\<close>,
  each of the two gated menu items that the page has is hidden (display \<^verbatim>\<open>none\<close>),
  and, if the page has the model-selection item, the selected model is null and the key
  \<^verbatim>\<open>memo_ai_selected_model\<close> is removed from storage. After a fetch that returns
  \<^verbatim>\<open>debug_mode: true\<close>, each item that the page has is shown (display empty), and the
  storage and the selected model are as before.
\<close>

theorem initializeDebugMode_gates_present_items:
  "ok code \<Longrightarrow>
   (modelSelectMenuItem p = Some a \<longrightarrow>
      modelSelectMenuItem (initializeDebugMode (Response code txt (Parsed (c\<lparr>debug_mode := Some False\<rparr>))) p)
        = Some (a\<lparr>display := js ''none''\<rparr>)
      \<and> current (initializeDebugMode (Response code txt (Parsed (c\<lparr>debug_mode := Some False\<rparr>))) p) = None
      \<and> localStorage (initializeDebugMode (Response code txt (Parsed (c\<lparr>debug_mode := Some False\<rparr>))) p)
        = (localStorage p)(selected_model_key := None))
   \<and> (debugInfoMenuItem p = Some b \<longrightarrow>
      debugInfoMenuItem (initializeDebugMode (Response code txt (Parsed (c\<lparr>debug_mode := Some False\<rparr>))) p)
        = Some (b\<lparr>display := js ''none''\<rparr>))
   \<and> (modelSelectMenuItem p = Some a \<longrightarrow>
      modelSelectMenuItem (initializeDebugMode (Response code txt (Parsed (c\<lparr>debug_mode := Some True\<rparr>))) p)
        = Some (a\<lparr>display := []\<rparr>))
   \<and> (debugInfoMenuItem p = Some b \<longrightarrow>
      debugInfoMenuItem (initializeDebugMode (Response code txt (Parsed (c\<lparr>debug_mode := Some True\<rparr>))) p)
        = Some (b\<lparr>display := []\<rparr>))
   \<and> localStorage (initializeDebugMode (Response code txt (Parsed (c\<lparr>debug_mode := Some True\<rparr>))) p)
        = localStorage p
   \<and> current (initializeDebugMode (Response code txt (Parsed (c\<lparr>debug_mode := Some True\<rparr>))) p)
        = current p"
  by (simp add: initializeDebugMode_parsed)

text \<open>
  On the page with both items: after \<^verbatim>\<open>debug_mode: false\<close> both are hidden, the model
  is cleared and the key is gone; after \<^verbatim>\<open>debug_mode: true\<close> a hidden item is shown
  and the key is still stored.
\<close>

theorem initializeDebugMode_gates_present_items_witness:
  "ok 200
   \<and> modelSelectMenuItem (initializeDebugMode (Response 200 (js ''OK'') (Parsed debug_off)) full_page)
       = Some (shown_element\<lparr>display := js ''none''\<rparr>)
   \<and> debugInfoMenuItem (initializeDebugMode (Response 200 (js ''OK'') (Parsed debug_off)) full_page)
       = Some (shown_element\<lparr>display := js ''none''\<rparr>)
   \<and> current (initializeDebugMode (Response 200 (js ''OK'') (Parsed debug_off)) full_page) = None
   \<and> localStorage (initializeDebugMode (Response 200 (js ''OK'') (Parsed debug_off)) full_page)
         selected_model_key = None
   \<and> modelSelectMenuItem (initializeDebugMode (Response 200 (js ''OK'') (Parsed debug_on))
         (full_page\<lparr>modelSelectMenuItem := Some hidden_element\<rparr>))
       = Some (hidden_element\<lparr>display := []\<rparr>)
   \<and> localStorage (initializeDebugMode (Response 200 (js ''OK'') (Parsed debug_on))
         (full_page\<lparr>modelSelectMenuItem := Some hidden_element\<rparr>)) selected_model_key
       = Some (js ''gemini/gemini-2.0-flash'')"
proof -
  have k: "ok 200" by (simp add: ok_def)
  have off: "debug_off\<lparr>debug_mode := Some False\<rparr> = debug_off"
    and on: "debug_on\<lparr>debug_mode := Some True\<rparr> = debug_on"
    by (simp_all add: debug_off_def debug_on_def)
  show ?thesis
    using initializeDebugMode_gates_present_items [OF k, of full_page shown_element "js ''OK''"
        debug_off shown_element]
      initializeDebugMode_gates_present_items [OF k,
        of "full_page\<lparr>modelSelectMenuItem := Some hidden_element\<rparr>" hidden_element "js ''OK''"
        debug_on shown_element]
    unfolding off on
    by (simp add: k full_page_def)
qed

text \<open>
  Claim C3 as stated promises a null selected model and a removed key after every
  \<^verbatim>\<open>debug_mode: false\<close> response. On a page without the model-selection item the
  selected model and the stored key survive such a response.
\<close>

theorem initializeDebugMode_absent_item_counterexample:
  "current (initializeDebugMode (Response 200 (js ''OK'') (Parsed debug_off))
       (full_page\<lparr>modelSelectMenuItem := None\<rparr>)) = Some (js ''gemini/gemini-2.0-flash'')
   \<and> localStorage (initializeDebugMode (Response 200 (js ''OK'') (Parsed debug_off))
       (full_page\<lparr>modelSelectMenuItem := None\<rparr>)) selected_model_key
     = Some (js ''gemini/gemini-2.0-flash'')"
proof -
  have "ok 200" by (simp add: ok_def)
  then show ?thesis
    by (simp add: initializeDebugMode_parsed debug_off_def full_page_def)
qed

text \<open>
  Claim C10. In \<^verbatim>\<open>updateDebugModeUI\<close> the selected model is cleared and the key
  \<^verbatim>\<open>memo_ai_selected_model\<close> is removed only inside the branch for the model-selection
  item: when the page has no such item, the selected model and the storage are left
  unchanged, whatever the flag; when it has the item and the flag is false, the model
  is null and the key is removed.
\<close>

theorem updateDebugModeUI_clears_only_with_item:
  "(modelSelectMenuItem p = None \<longrightarrow>
      current (updateDebugModeUI p) = current p
      \<and> localStorage (updateDebugModeUI p) = localStorage p)
   \<and> (modelSelectMenuItem p \<noteq> None \<and> \<not> serverMode p \<longrightarrow>
      current (updateDebugModeUI p) = None
      \<and> localStorage (updateDebugModeUI p) = (localStorage p)(selected_model_key := None))"
  by (simp add: updateDebugModeUI_fields)

text \<open>
  With the flag false, the page without the four elements keeps its model and its key;
  the page with them loses both.
\<close>

theorem updateDebugModeUI_clears_only_with_item_witness:
  "current (updateDebugModeUI (bare_page\<lparr>serverMode := False\<rparr>)) = Some (js ''gemini/gemini-2.0-flash'')
   \<and> localStorage (updateDebugModeUI (bare_page\<lparr>serverMode := False\<rparr>)) selected_model_key
       = Some (js ''gemini/gemini-2.0-flash'')
   \<and> current (updateDebugModeUI (full_page\<lparr>serverMode := False\<rparr>)) = None
   \<and> localStorage (updateDebugModeUI (full_page\<lparr>serverMode := False\<rparr>)) selected_model_key = None"
  using updateDebugModeUI_clears_only_with_item [of "bare_page\<lparr>serverMode := False\<rparr>"]
    updateDebugModeUI_clears_only_with_item [of "full_page\<lparr>serverMode := False\<rparr>"]
  by (simp add: bare_page_def full_page_def)

section \<open>Properties of the debug modal\<close>

lemma loadDebugInfo_absent: "debugInfoContent p = None \<Longrightarrow> loadDebugInfo E res p = p"
  by (simp add: loadDebugInfo_def)

lemma renderDebugInfo_absent:
  "debugInfoContent p = None \<Longrightarrow> renderDebugInfo E data p = Inr p"
  by (simp add: renderDebugInfo_def)

text \<open>
  Claim C4. The claim asks that no operation throws when an element is missing. With
  the content container absent \<^verbatim>\<open>loadDebugInfo\<close> and \<^verbatim>\<open>renderDebugInfo\<close> change
  nothing and return, and \<^verbatim>\<open>updateDebugModeUI\<close> leaves an absent menu item absent. With the modal
  container absent, \<^verbatim>\<open>openDebugModal\<close> and \<^verbatim>\<open>closeDebugModal\<close> throw a
  \<^verbatim>\<open>TypeError\<close>.
\<close>

theorem missing_modal_throws:
  "(debugModal p = None \<longrightarrow>
      openDebugModal E res p = Inl TypeError \<and> closeDebugModal p = Inl TypeError)
   \<and> (debugInfoContent p = None \<longrightarrow>
        loadDebugInfo E res p = p \<and> renderDebugInfo E data p = Inr p)
   \<and> (modelSelectMenuItem p = None \<longrightarrow> modelSelectMenuItem (updateDebugModeUI p) = None)
   \<and> (debugInfoMenuItem p = None \<longrightarrow> debugInfoMenuItem (updateDebugModeUI p) = None)"
  by (simp add: openDebugModal_def closeDebugModal_def loadDebugInfo_absent
        renderDebugInfo_absent updateDebugModeUI_fields)

text \<open>On the page without the four elements, opening and closing the modal both throw.\<close>

theorem missing_modal_throws_witness:
  "openDebugModal small_numbers (Rejected (js ''Failed to fetch'')) bare_page = Inl TypeError
   \<and> closeDebugModal bare_page = Inl TypeError
   \<and> loadDebugInfo small_numbers (Rejected (js ''Failed to fetch'')) bare_page = bare_page
   \<and> renderDebugInfo small_numbers sample_snapshot bare_page = Inr bare_page
   \<and> modelSelectMenuItem (updateDebugModeUI bare_page) = None
   \<and> debugInfoMenuItem (updateDebugModeUI bare_page) = None"
  using missing_modal_throws [of bare_page small_numbers "Rejected (js ''Failed to fetch'')"
      sample_snapshot]
  by (simp add: bare_page_def)

section \<open>Rendering a snapshot\<close>

text \<open>A value converts to a string exactly when \<open>convertible\<close> says so.\<close>

lemma to_string_cases:
  "(convertible v \<longrightarrow> (\<exists>s. to_string E v = Inr s))
     \<and> (\<not> convertible v \<longrightarrow> to_string E v = Inl TypeError)"
  "(convertible_elements xs \<longrightarrow> (\<exists>ss. elements_to_string E xs = Inr ss))
     \<and> (\<not> convertible_elements xs \<longrightarrow> elements_to_string E xs = Inl TypeError)"
  by (induction E v and E xs rule: to_string_elements_to_string.induct)
     (auto split: sum.splits json.splits)

lemma to_string_convertible: "convertible v \<Longrightarrow> to_string E v = Inr (string_of E v)"
  using to_string_cases(1) [of v E] by (auto simp: string_of_def)

lemma to_string_throws: "\<not> convertible v \<Longrightarrow> to_string E v = Inl TypeError"
  using to_string_cases(1) [of v E] by simp

lemma falsy_convertible: "\<not> truthy E v \<Longrightarrow> convertible v"
  by (cases v) simp_all

lemma environment_items_rendered:
  "list_all (\<lambda>(key, val). convertible val) kvs \<Longrightarrow>
   environment_items E html kvs =
     Inr (html @ concat (map (\<lambda>(key, val).
            item_open @ key @ span_value_open @ string_of E val @ span_item_close) kvs))"
  by (induction kvs arbitrary: html) (auto simp: to_string_convertible)

lemma environment_items_throws:
  "\<not> list_all (\<lambda>(key, val). convertible val) kvs \<Longrightarrow>
   environment_items E html kvs = Inl TypeError"
proof (induction kvs arbitrary: html)
  case Nil
  then show ?case by simp
next
  case (Cons kv kvs)
  obtain key val where kv: "kv = (key, val)" by (cases kv)
  show ?case
  proof (cases "convertible val")
    case True
    with Cons kv show ?thesis by (simp add: to_string_convertible)
  next
    case False
    with kv show ?thesis by (simp add: to_string_throws)
  qed
qed

lemma env_var_items_rendered:
  "list_all (\<lambda>(key, val). convertible val) kvs \<Longrightarrow>
   env_var_items E html kvs =
     Inr (html @ concat (map (\<lambda>(key, val).
            item_open @ key @ code_value_open
            @ (if truthy E val then string_of E val else js ''null'') @ code_item_close) kvs))"
  by (induction kvs arbitrary: html) (auto simp: to_string_convertible)

lemma env_var_items_throws:
  "\<not> list_all (\<lambda>(key, val). convertible val) kvs \<Longrightarrow>
   env_var_items E html kvs = Inl TypeError"
proof (induction kvs arbitrary: html)
  case Nil
  then show ?case by simp
next
  case (Cons kv kvs)
  obtain key val where kv: "kv = (key, val)" by (cases kv)
  show ?case
  proof (cases "convertible val")
    case True
    with Cons kv show ?thesis by (simp add: to_string_convertible)
  next
    case False
    then have "truthy E val"
      using falsy_convertible by blast
    with False kv show ?thesis by (simp add: to_string_throws)
  qed
qed

text \<open>
  \<^verbatim>\<open>renderDebugInfo\<close> on a page with the content container: for a snapshot whose
  values convert, it returns, having stored the model list and having set the markup,
  which is the sequence of the sections; for any other snapshot it throws.
\<close>

lemma renderDebugInfo_rendered:
  "debugInfoContent p = Some content \<Longrightarrow> renderable data \<Longrightarrow>
   renderDebugInfo E data p =
     Inr (p\<lparr>lastModelList :=
               (case models data of None \<Rightarrow> lastModelList p | Some m \<Rightarrow> Some (raw_list m)),
            debugInfoContent :=
               Some (content\<lparr>innerHTML := rendered_markup E (lastApiCall p) data\<rparr>)\<rparr>)"
  by (cases "cors data"; cases "lastApiCall p"; cases "env_vars data"; cases "environment data";
      cases "models data")
     (simp_all add: renderDebugInfo_def Let_def renderable_def entries_def
        environment_items_rendered env_var_items_rendered rendered_markup_def
        timestamp_line_def cors_section_def platform_item_def api_section_def
        environment_section_def env_vars_section_def models_section_def split: option.splits)

lemma renderDebugInfo_throws:
  "debugInfoContent p = Some content \<Longrightarrow> \<not> renderable data \<Longrightarrow>
   renderDebugInfo E data p = Inl TypeError"
proof (cases "list_all (\<lambda>(key, val). convertible val) (entries (environment data))")
  case False
  assume "debugInfoContent p = Some content"
  with False show ?thesis
    by (simp add: renderDebugInfo_def Let_def entries_def environment_items_throws)
next
  case True
  assume c: "debugInfoContent p = Some content" and "\<not> renderable data"
  with True have "\<not> list_all (\<lambda>(key, val). convertible val) (entries (env_vars data))"
    by (simp add: renderable_def)
  then obtain kvs where "env_vars data = Some kvs"
    and "\<not> list_all (\<lambda>(key, val). convertible val) kvs"
    by (cases "env_vars data") (simp_all add: entries_def)
  with True c show ?thesis
    by (simp add: renderDebugInfo_def Let_def entries_def environment_items_rendered
        env_var_items_throws)
qed

lemma loadDebugInfo_parsed:
  "debugInfoContent p = Some content \<Longrightarrow> ok code \<Longrightarrow>
   loadDebugInfo E (Response code statusText (Parsed data)) p =
     (if renderable data
      then p\<lparr>lastModelList :=
                (case models data of None \<Rightarrow> lastModelList p | Some m \<Rightarrow> Some (raw_list m)),
             debugInfoContent :=
                Some (content\<lparr>innerHTML := rendered_markup E (lastApiCall p) data\<rparr>),
             fetched := fetched p @ [debug_url]\<rparr>
      else p\<lparr>debugInfoContent :=
                Some (content\<lparr>innerHTML := error_panel (conversion_message E)\<rparr>),
             fetched := fetched p @ [debug_url]\<rparr>)"
proof -
  assume c: "debugInfoContent p = Some content" and k: "ok code"
  define q where "q = (set_content loading_indicator p)
      \<lparr>fetched := fetched (set_content loading_indicator p) @ [debug_url]\<rparr>"
  have q: "debugInfoContent q = Some (content\<lparr>innerHTML := loading_indicator\<rparr>)"
    "lastApiCall q = lastApiCall p" "lastModelList q = lastModelList p"
    by (simp_all add: q_def set_content_def c)
  have l: "loadDebugInfo E (Response code statusText (Parsed data)) p =
      (case renderDebugInfo E data q of
         Inl e \<Rightarrow> set_content (error_panel (conversion_message E)) q
       | Inr rendered \<Rightarrow> rendered)"
    unfolding loadDebugInfo_def Let_def q_def using c k by simp
  show ?thesis
  proof (cases "renderable data")
    case True
    show ?thesis
      unfolding l renderDebugInfo_rendered [OF q(1) True]
      using True by (cases "models data") (simp_all add: q q_def set_content_def c)
  next
    case False
    show ?thesis
      unfolding l renderDebugInfo_throws [OF q(1) False]
      using False by (simp add: q_def set_content_def c)
  qed
qed

section \<open>Properties of a failed load\<close>

lemma loadDebugInfo_failed:
  "debugInfoContent p = Some content \<Longrightarrow> failure_message res = Some msg \<Longrightarrow>
   loadDebugInfo E res p =
     p\<lparr>debugInfoContent := Some (content\<lparr>innerHTML := error_panel msg\<rparr>),
       fetched := fetched p @ [debug_url]\<rparr>"
  by (auto simp: loadDebugInfo_def failure_message_def set_content_def Let_def
        split: fetch_result.splits body.splits if_splits)

lemma loadDebugInfo_fetched:
  "debugInfoContent p = Some content \<Longrightarrow> fetched (loadDebugInfo E res p) = fetched p @ [debug_url]"
proof (cases "failure_message res")
  case (Some msg)
  assume "debugInfoContent p = Some content"
  then show ?thesis
    by (simp add: loadDebugInfo_failed [OF _ Some])
next
  case None
  assume c: "debugInfoContent p = Some content"
  from None obtain code statusText data where "res = Response code statusText (Parsed data)" "ok code"
    by (auto simp: failure_message_def split: fetch_result.splits body.splits if_splits)
  then show ?thesis
    by (simp add: loadDebugInfo_parsed [OF c])
qed

text \<open>
  Claim C5, as amended. When the content container is present and the fetch of the
  debug endpoint fails (it is rejected, the status is outside 200 to 299, or the body
  does not parse), the content of the container becomes exactly the error panel: its
  heading, the error message in a paragraph (for a bad status, \<^verbatim>\<open>HTTP\<close>, the status
  code and the status text) and the fixed hint in a second paragraph; nothing of the
  previous content or of the loading indicator remains. An invocation that finds the
  container adds exactly one request, to the debug endpoint, to the requests made,
  whatever the outcome; an invocation that does not find it makes no request and
  changes nothing.
\<close>

theorem loadDebugInfo_failure_panel:
  "(debugInfoContent p = Some content \<longrightarrow>
      (failure_message res = Some msg \<longrightarrow>
         debugInfoContent (loadDebugInfo E res p)
           = Some (content\<lparr>innerHTML :=
               [0x0A] @ js ''            <div class='' @ [0x22] @ js ''debug-error'' @ [0x22] @ js ''>''
               @ [0x0A] @ js ''                <h3>'' @ [0x274C] @ js '' ''
               @ [0x30C7, 0x30D0, 0x30C3, 0x30B0, 0x60C5, 0x5831, 0x306E, 0x53D6, 0x5F97, 0x306B,
                  0x5931, 0x6557]
               @ js ''</h3>'' @ [0x0A] @ js ''                <p>''
               @ msg
               @ js ''</p>'' @ [0x0A]
               @ js ''                <p class='' @ [0x22] @ js ''debug-hint'' @ [0x22] @ js ''>''
               @ [0x0A] @ js ''                    '' @ [0xD83D, 0xDCA1] @ js '' ''
               @ [0x30D2, 0x30F3, 0x30C8] @ js '': ''
               @ [0x30B5, 0x30FC, 0x30D0, 0x30FC, 0x304C, 0x8D77, 0x52D5, 0x3057, 0x3066, 0x3044,
                  0x308B, 0x304B, 0x78BA, 0x8A8D, 0x3057, 0x3066, 0x304F, 0x3060, 0x3055, 0x3044]
               @ [0x0A] @ js ''                </p>'' @ [0x0A] @ js ''            </div>''
               @ [0x0A] @ js ''        ''\<rparr>))
      \<and> fetched (loadDebugInfo E res p) = fetched p @ [js ''/api/debug5075378''])
   \<and> (debugInfoContent p = None \<longrightarrow> loadDebugInfo E res p = p)
   \<and> failure_message (Rejected msg) = Some msg
   \<and> (\<not> ok code \<longrightarrow>
        failure_message (Response code statusText b)
          = Some (js ''HTTP '' @ show_nat (unat code) @ js '': '' @ statusText))
   \<and> (ok code \<longrightarrow> failure_message (Response code statusText (Malformed msg)) = Some msg)"
proof -
  have panel: "error_panel msg =
               [0x0A] @ js ''            <div class='' @ [0x22] @ js ''debug-error'' @ [0x22] @ js ''>''
               @ [0x0A] @ js ''                <h3>'' @ [0x274C] @ js '' ''
               @ [0x30C7, 0x30D0, 0x30C3, 0x30B0, 0x60C5, 0x5831, 0x306E, 0x53D6, 0x5F97, 0x306B,
                  0x5931, 0x6557]
               @ js ''</h3>'' @ [0x0A] @ js ''                <p>''
               @ msg
               @ js ''</p>'' @ [0x0A]
               @ js ''                <p class='' @ [0x22] @ js ''debug-hint'' @ [0x22] @ js ''>''
               @ [0x0A] @ js ''                    '' @ [0xD83D, 0xDCA1] @ js '' ''
               @ [0x30D2, 0x30F3, 0x30C8] @ js '': ''
               @ [0x30B5, 0x30FC, 0x30D0, 0x30FC, 0x304C, 0x8D77, 0x52D5, 0x3057, 0x3066, 0x3044,
                  0x308B, 0x304B, 0x78BA, 0x8A8D, 0x3057, 0x3066, 0x304F, 0x3060, 0x3055, 0x3044]
               @ [0x0A] @ js ''                </p>'' @ [0x0A] @ js ''            </div>''
               @ [0x0A] @ js ''        ''"
    by (simp add: error_panel_def error_panel_open_def error_panel_hint_def js_def)
  have url: "debug_url = js ''/api/debug5075378''"
    by (simp add: debug_url_def)
  have failed: "debugInfoContent p = Some content \<Longrightarrow> failure_message res = Some msg \<Longrightarrow>
      debugInfoContent (loadDebugInfo E res p) = Some (content\<lparr>innerHTML := error_panel msg\<rparr>)"
    by (simp add: loadDebugInfo_failed)
  have messages: "failure_message (Rejected msg) = Some msg"
    "\<not> ok code \<longrightarrow>
        failure_message (Response code statusText b)
          = Some (js ''HTTP '' @ show_nat (unat code) @ js '': '' @ statusText)"
    "ok code \<longrightarrow> failure_message (Response code statusText (Malformed msg)) = Some msg"
    by (simp_all add: failure_message_def)
  show ?thesis
    using failed loadDebugInfo_fetched [of p content E res] loadDebugInfo_absent [of p E res] messages
    unfolding panel url by blast
qed

text \<open>
  A response with status 500 on the page with old content: the panel with the message
  \<^verbatim>\<open>HTTP 500: Internal Server Error\<close>, and one request. The same response on the page
  without the container: nothing happens.
\<close>

theorem loadDebugInfo_failure_panel_witness:
  "debugInfoContent (loadDebugInfo small_numbers
       (Response 500 (js ''Internal Server Error'') (Malformed [])) full_page)
     = Some (shown_element\<lparr>innerHTML :=
          [0x0A] @ js ''            <div class='' @ [0x22] @ js ''debug-error'' @ [0x22] @ js ''>''
          @ [0x0A] @ js ''                <h3>'' @ [0x274C] @ js '' ''
          @ [0x30C7, 0x30D0, 0x30C3, 0x30B0, 0x60C5, 0x5831, 0x306E, 0x53D6, 0x5F97, 0x306B,
             0x5931, 0x6557]
          @ js ''</h3>'' @ [0x0A] @ js ''                <p>''
          @ js ''HTTP 500: Internal Server Error''
          @ js ''</p>'' @ [0x0A]
          @ js ''                <p class='' @ [0x22] @ js ''debug-hint'' @ [0x22] @ js ''>''
          @ [0x0A] @ js ''                    '' @ [0xD83D, 0xDCA1] @ js '' ''
          @ [0x30D2, 0x30F3, 0x30C8] @ js '': ''
          @ [0x30B5, 0x30FC, 0x30D0, 0x30FC, 0x304C, 0x8D77, 0x52D5, 0x3057, 0x3066, 0x3044,
             0x308B, 0x304B, 0x78BA, 0x8A8D, 0x3057, 0x3066, 0x304F, 0x3060, 0x3055, 0x3044]
          @ [0x0A] @ js ''                </p>'' @ [0x0A] @ js ''            </div>''
          @ [0x0A] @ js ''        ''\<rparr>)
   \<and> fetched (loadDebugInfo small_numbers
       (Response 500 (js ''Internal Server Error'') (Malformed [])) full_page)
     = [js ''/api/debug5075378'']
   \<and> loadDebugInfo small_numbers
       (Response 500 (js ''Internal Server Error'') (Malformed [])) bare_page = bare_page"
proof -
  let ?res = "Response 500 (js ''Internal Server Error'') (Malformed []) :: 16 word snapshot fetch_result"
  have c: "debugInfoContent full_page = Some shown_element" "fetched full_page = []"
    and b: "debugInfoContent bare_page = None"
    by (simp_all add: full_page_def bare_page_def)
  have k: "\<not> ok 500" by (simp add: ok_def)
  have m: "js ''HTTP '' @ show_nat (unat (500 :: 16 word)) @ js '': '' @ js ''Internal Server Error''
      = js ''HTTP 500: Internal Server Error''"
    by code_simp
  note t = loadDebugInfo_failure_panel [of full_page shown_element ?res
      "js ''HTTP 500: Internal Server Error''" small_numbers 500 "js ''Internal Server Error''"
      "Malformed []"]
  note u = loadDebugInfo_failure_panel [of bare_page shown_element ?res
      "js ''HTTP 500: Internal Server Error''" small_numbers 500 "js ''Internal Server Error''"
      "Malformed []"]
  have f: "failure_message ?res = Some (js ''HTTP 500: Internal Server Error'')"
    using t k unfolding m by blast
  from t [THEN conjunct1] c(1) f
  have "debugInfoContent (loadDebugInfo small_numbers ?res full_page)
     = Some (shown_element\<lparr>innerHTML :=
          [0x0A] @ js ''            <div class='' @ [0x22] @ js ''debug-error'' @ [0x22] @ js ''>''
          @ [0x0A] @ js ''                <h3>'' @ [0x274C] @ js '' ''
          @ [0x30C7, 0x30D0, 0x30C3, 0x30B0, 0x60C5, 0x5831, 0x306E, 0x53D6, 0x5F97, 0x306B,
             0x5931, 0x6557]
          @ js ''</h3>'' @ [0x0A] @ js ''                <p>''
          @ js ''HTTP 500: Internal Server Error''
          @ js ''</p>'' @ [0x0A]
          @ js ''                <p class='' @ [0x22] @ js ''debug-hint'' @ [0x22] @ js ''>''
          @ [0x0A] @ js ''                    '' @ [0xD83D, 0xDCA1] @ js '' ''
          @ [0x30D2, 0x30F3, 0x30C8] @ js '': ''
          @ [0x30B5, 0x30FC, 0x30D0, 0x30FC, 0x304C, 0x8D77, 0x52D5, 0x3057, 0x3066, 0x3044,
             0x308B, 0x304B, 0x78BA, 0x8A8D, 0x3057, 0x3066, 0x304F, 0x3060, 0x3055, 0x3044]
          @ [0x0A] @ js ''                </p>'' @ [0x0A] @ js ''            </div>''
          @ [0x0A] @ js ''        ''\<rparr>)"
    by blast
  moreover from t [THEN conjunct1] c
  have "fetched (loadDebugInfo small_numbers ?res full_page) = [js ''/api/debug5075378'']"
    by simp
  moreover from u b have "loadDebugInfo small_numbers ?res bare_page = bare_page"
    by blast
  ultimately show ?thesis
    by blast
qed

text \<open>
  Claim C5 as stated promises exactly one fetch attempt for every invocation. On a page
  without the content container \<^verbatim>\<open>loadDebugInfo\<close> returns at its first test: the
  invocation makes no request at all.
\<close>

theorem loadDebugInfo_no_container_counterexample:
  "debugInfoContent bare_page = None
   \<and> fetched bare_page = []
   \<and> fetched (loadDebugInfo small_numbers
        (Response 500 (js ''Internal Server Error'') (Malformed [])) bare_page) = []
   \<and> fetched (loadDebugInfo small_numbers (Rejected (js ''Failed to fetch'')) bare_page) = []"
  by (simp add: loadDebugInfo_def bare_page_def full_page_def)

section \<open>Properties of the clipboard export\<close>

lemma notify_fields:
  "clipboard (notify msg p) = clipboard p"
  "lastApiCall (notify msg p) = lastApiCall p"
  "lastModelList (notify msg p) = lastModelList p"
  "toasts (notify msg p) = (if showToast p then toasts p @ [msg] else toasts p)"
  by (simp_all add: notify_def)

lemma copyLastApiCall_written:
  "lastApiCall p = Some call \<Longrightarrow> navigator_clipboard p \<Longrightarrow>
   copyLastApiCall E written p =
     Inr (notify (if written then toast_copied else toast_copy_failed)
            (p\<lparr>clipboard := clipboard p @ [banner @ JSON_stringify E False 2 (api_call_json call)]\<rparr>))"
  by (simp add: copyLastApiCall_def writeText_def)

lemma copyModelList_written:
  "lastModelList p = Some raw \<Longrightarrow> navigator_clipboard p \<Longrightarrow>
   copyModelList E written p =
     Inr (notify (if written then toast_models_copied else toast_copy_failed)
            (p\<lparr>clipboard := clipboard p @ [JSON_stringify E False 2 (JArr raw)]\<rparr>))"
  by (simp add: copyModelList_def writeText_def)

text \<open>The layout of the record as \<^verbatim>\<open>JSON.stringify(record, null, 2)\<close> prints it.\<close>

lemma record_keys:
  "quote (js ''timestamp'') = js ''\"timestamp\"''"
  "quote (js ''endpoint'') = js ''\"endpoint\"''"
  "quote (js ''method'') = js ''\"method\"''"
  "quote (js ''status'') = js ''\"status\"''"
  "quote (js ''error'') = js ''\"error\"''"
  "quote (js ''request'') = js ''\"request\"''"
  "quote (js ''response'') = js ''\"response\"''"
  by code_simp+

lemma two_spaces: "spaces 2 = js ''  ''" "spaces 0 = []" "spaces (Suc (Suc 0)) = js ''  ''"
  by code_simp+

lemma record_layout:
  "JSON_stringify E False 2 (api_call_json call)
     = js ''{'' @ [0x0A]
       @ js ''  \"timestamp\": '' @ quote (timestamp call) @ js '','' @ [0x0A]
       @ js ''  \"endpoint\": '' @ quote (endpoint call) @ js '','' @ [0x0A]
       @ js ''  \"method\": '' @ quote (http_method call) @ js '','' @ [0x0A]
       @ js ''  \"status\": '' @ serialize E False 2 2 (js ''status'') (status call)
       @ js '','' @ [0x0A]
       @ js ''  \"error\": '' @ serialize E False 2 2 (js ''error'') (error call)
       @ js '','' @ [0x0A]
       @ js ''  \"request\": '' @ serialize E False 2 2 (js ''request'') (request call)
       @ js '','' @ [0x0A]
       @ js ''  \"response\": '' @ serialize E False 2 2 (js ''response'') (response call)
       @ [0x0A] @ js ''}''"
proof -
  have strings: "serialize E False 2 2 k (JStr s) = quote s" for k s
    by (simp add: serialize_plain)
  have "JSON_stringify E False 2 (api_call_json call)
      = wrap 2 0 (js ''{'') (js ''}'')
          (serialize_members E False 2 2
             [(js ''timestamp'', JStr (timestamp call)),
              (js ''endpoint'', JStr (endpoint call)),
              (js ''method'', JStr (http_method call)),
              (js ''status'', status call),
              (js ''error'', error call),
              (js ''request'', request call),
              (js ''response'', response call)])"
    unfolding JSON_stringify_def api_call_json_def
    by (subst serialize_plain) (simp only: json.case add.left_neutral)
  also have "\<dots> = js ''{'' @ [0x0A]
       @ js ''  \"timestamp\": '' @ quote (timestamp call) @ js '','' @ [0x0A]
       @ js ''  \"endpoint\": '' @ quote (endpoint call) @ js '','' @ [0x0A]
       @ js ''  \"method\": '' @ quote (http_method call) @ js '','' @ [0x0A]
       @ js ''  \"status\": '' @ serialize E False 2 2 (js ''status'') (status call)
       @ js '','' @ [0x0A]
       @ js ''  \"error\": '' @ serialize E False 2 2 (js ''error'') (error call)
       @ js '','' @ [0x0A]
       @ js ''  \"request\": '' @ serialize E False 2 2 (js ''request'') (request call)
       @ js '','' @ [0x0A]
       @ js ''  \"response\": '' @ serialize E False 2 2 (js ''response'') (response call)
       @ [0x0A] @ js ''}''"
    by (simp add: wrap_def strings record_keys two_spaces newline_def) (simp add: js_def)
  finally show ?thesis .
qed

text \<open>
  Claim C6, as amended. With the slot of the last call empty, \<^verbatim>\<open>copyLastApiCall\<close> does
  nothing but notify: the toast is shown when \<^verbatim>\<open>window.showToast\<close> is defined and nothing
  is shown when it is not; no text is written to the clipboard and the slot stays
  empty. With the slot holding a record and \<^verbatim>\<open>navigator.clipboard\<close> defined, exactly one
  text is written to the clipboard, and the slot keeps the record. That text is the
  banner \<^verbatim>\<open>=== Memo AI Debug ===\<close> and a line break, followed by a JSON text: parsing
  it gives back the object with the seven fields of the stored record, and it is laid
  out with one field on each line, indented by two spaces.
\<close>

theorem copyLastApiCall_export:
  "numbers_round_trip E \<Longrightarrow>
   (lastApiCall p = None \<longrightarrow>
      copyLastApiCall E written p
        = Inr (if showToast p
               then p\<lparr>toasts := toasts p @
                        [[0x30B3, 0x30D4, 0x30FC, 0x3059, 0x308B, 0x5C65, 0x6B74, 0x304C, 0x3042,
                          0x308A, 0x307E, 0x305B, 0x3093]]\<rparr>
               else p))
   \<and> (lastApiCall p = Some call \<and> navigator_clipboard p \<longrightarrow>
        (\<exists>p'. copyLastApiCall E written p = Inr p'
           \<and> clipboard p'
               = clipboard p @ [js ''=== Memo AI Debug ==='' @ [0x0A]
                                @ JSON_stringify E False 2 (api_call_json call)]
           \<and> lastApiCall p' = Some call))
   \<and> JSON_parse E (JSON_stringify E False 2 (api_call_json call))
        = Some (JObj [(js ''timestamp'', JStr (timestamp call)),
                      (js ''endpoint'', JStr (endpoint call)),
                      (js ''method'', JStr (http_method call)),
                      (js ''status'', status call),
                      (js ''error'', error call),
                      (js ''request'', request call),
                      (js ''response'', response call)])
   \<and> JSON_stringify E False 2 (api_call_json call)
        = js ''{'' @ [0x0A]
          @ js ''  \"timestamp\": '' @ quote (timestamp call) @ js '','' @ [0x0A]
          @ js ''  \"endpoint\": '' @ quote (endpoint call) @ js '','' @ [0x0A]
          @ js ''  \"method\": '' @ quote (http_method call) @ js '','' @ [0x0A]
          @ js ''  \"status\": '' @ serialize E False 2 2 (js ''status'') (status call)
          @ js '','' @ [0x0A]
          @ js ''  \"error\": '' @ serialize E False 2 2 (js ''error'') (error call)
          @ js '','' @ [0x0A]
          @ js ''  \"request\": '' @ serialize E False 2 2 (js ''request'') (request call)
          @ js '','' @ [0x0A]
          @ js ''  \"response\": '' @ serialize E False 2 2 (js ''response'') (response call)
          @ [0x0A] @ js ''}''"
proof -
  assume ok: "numbers_round_trip E"
  have empty: "lastApiCall p = None \<longrightarrow>
      copyLastApiCall E written p
        = Inr (if showToast p
               then p\<lparr>toasts := toasts p @
                        [[0x30B3, 0x30D4, 0x30FC, 0x3059, 0x308B, 0x5C65, 0x6B74, 0x304C, 0x3042,
                          0x308A, 0x307E, 0x305B, 0x3093]]\<rparr>
               else p)"
    by (simp add: copyLastApiCall_def notify_def toast_no_history_def)
  have written: "lastApiCall p = Some call \<and> navigator_clipboard p \<longrightarrow>
        (\<exists>p'. copyLastApiCall E written p = Inr p'
           \<and> clipboard p'
               = clipboard p @ [js ''=== Memo AI Debug ==='' @ [0x0A]
                                @ JSON_stringify E False 2 (api_call_json call)]
           \<and> lastApiCall p' = Some call)"
    by (simp add: copyLastApiCall_written notify_fields banner_def)
  have parsed: "JSON_parse E (JSON_stringify E False 2 (api_call_json call))
        = Some (JObj [(js ''timestamp'', JStr (timestamp call)),
                      (js ''endpoint'', JStr (endpoint call)),
                      (js ''method'', JStr (http_method call)),
                      (js ''status'', status call),
                      (js ''error'', error call),
                      (js ''request'', request call),
                      (js ''response'', response call)])"
    using JSON_parse_stringify [OF ok, of 2 "api_call_json call"]
    by (simp add: api_call_json_def)
  show ?thesis
    using empty written parsed record_layout [of E call] by blast
qed

text \<open>
  The empty slot gives one toast and no clipboard text; a recorded call gives the
  banner and the indented JSON text of the record, which parses back to the record.
\<close>

theorem copyLastApiCall_export_witness:
  "copyLastApiCall small_numbers True full_page
     = Inr (full_page\<lparr>toasts :=
              [[0x30B3, 0x30D4, 0x30FC, 0x3059, 0x308B, 0x5C65, 0x6B74, 0x304C, 0x3042,
                0x308A, 0x307E, 0x305B, 0x3093]]\<rparr>)
   \<and> (\<exists>p'. copyLastApiCall small_numbers True (full_page\<lparr>lastApiCall := Some sample_call\<rparr>) = Inr p'
         \<and> lastApiCall p' = Some sample_call
         \<and> clipboard p'
            = [js ''=== Memo AI Debug ==='' @ [0x0A] @
               js ''{'' @ [0x0A] @
               js ''  \"timestamp\": \"2026-01-01T00:00:00.000Z\",'' @ [0x0A] @
               js ''  \"endpoint\": \"/api/chat\",'' @ [0x0A] @
               js ''  \"method\": \"POST\",'' @ [0x0A] @
               js ''  \"status\": 200,'' @ [0x0A] @
               js ''  \"error\": null,'' @ [0x0A] @
               js ''  \"request\": {'' @ [0x0A] @
               js ''    \"text\": \"a<b\",'' @ [0x0A] @
               js ''    \"image_data\": \"[Image: 4 chars]\"'' @ [0x0A] @
               js ''  },'' @ [0x0A] @
               js ''  \"response\": []'' @ [0x0A] @
               js ''}''])
   \<and> JSON_parse small_numbers
        (js ''{'' @ [0x0A] @
         js ''  \"timestamp\": \"2026-01-01T00:00:00.000Z\",'' @ [0x0A] @
         js ''  \"endpoint\": \"/api/chat\",'' @ [0x0A] @
         js ''  \"method\": \"POST\",'' @ [0x0A] @
         js ''  \"status\": 200,'' @ [0x0A] @
         js ''  \"error\": null,'' @ [0x0A] @
         js ''  \"request\": {'' @ [0x0A] @
         js ''    \"text\": \"a<b\",'' @ [0x0A] @
         js ''    \"image_data\": \"[Image: 4 chars]\"'' @ [0x0A] @
         js ''  },'' @ [0x0A] @
         js ''  \"response\": []'' @ [0x0A] @
         js ''}'')
      = Some (JObj [(js ''timestamp'', JStr (js ''2026-01-01T00:00:00.000Z'')),
                    (js ''endpoint'', JStr (js ''/api/chat'')),
                    (js ''method'', JStr (js ''POST'')),
                    (js ''status'', JNum 200),
                    (js ''error'', JNull),
                    (js ''request'', JObj [(js ''text'', JStr (js ''a<b'')),
                                           (js ''image_data'', JStr (js ''[Image: 4 chars]''))]),
                    (js ''response'', JArr [])])"
proof -
  have content_eq: "JSON_stringify small_numbers False 2 (api_call_json sample_call)
      = js ''{'' @ [0x0A] @
         js ''  \"timestamp\": \"2026-01-01T00:00:00.000Z\",'' @ [0x0A] @
         js ''  \"endpoint\": \"/api/chat\",'' @ [0x0A] @
         js ''  \"method\": \"POST\",'' @ [0x0A] @
         js ''  \"status\": 200,'' @ [0x0A] @
         js ''  \"error\": null,'' @ [0x0A] @
         js ''  \"request\": {'' @ [0x0A] @
         js ''    \"text\": \"a<b\",'' @ [0x0A] @
         js ''    \"image_data\": \"[Image: 4 chars]\"'' @ [0x0A] @
         js ''  },'' @ [0x0A] @
         js ''  \"response\": []'' @ [0x0A] @
         js ''}''"
    by code_simp
  have fields: "timestamp sample_call = js ''2026-01-01T00:00:00.000Z''"
    "endpoint sample_call = js ''/api/chat''" "http_method sample_call = js ''POST''"
    "status sample_call = JNum 200" "error sample_call = JNull"
    "request sample_call = JObj [(js ''text'', JStr (js ''a<b'')),
                                 (js ''image_data'', JStr (js ''[Image: 4 chars]''))]"
    "response sample_call = JArr []"
    by (simp_all add: sample_call_def image_data_def)
  have page: "lastApiCall full_page = None" "clipboard full_page = []" "toasts full_page = []"
    "showToast full_page" "navigator_clipboard full_page"
    by (simp_all add: full_page_def)
  note t = copyLastApiCall_export [OF small_numbers_round_trip, of full_page True sample_call]
  note u = copyLastApiCall_export [OF small_numbers_round_trip,
      of "full_page\<lparr>lastApiCall := Some sample_call\<rparr>" True sample_call]
  have a: "copyLastApiCall small_numbers True full_page
     = Inr (full_page\<lparr>toasts :=
              [[0x30B3, 0x30D4, 0x30FC, 0x3059, 0x308B, 0x5C65, 0x6B74, 0x304C, 0x3042,
                0x308A, 0x307E, 0x305B, 0x3093]]\<rparr>)"
    using t [THEN conjunct1] page by simp
  have b: "\<exists>p'. copyLastApiCall small_numbers True (full_page\<lparr>lastApiCall := Some sample_call\<rparr>) = Inr p'
         \<and> lastApiCall p' = Some sample_call
         \<and> clipboard p'
            = [js ''=== Memo AI Debug ==='' @ [0x0A] @
               JSON_stringify small_numbers False 2 (api_call_json sample_call)]"
    using u [THEN conjunct2, THEN conjunct1] page by auto
  have c: "JSON_parse small_numbers (JSON_stringify small_numbers False 2 (api_call_json sample_call))
      = Some (JObj [(js ''timestamp'', JStr (js ''2026-01-01T00:00:00.000Z'')),
                    (js ''endpoint'', JStr (js ''/api/chat'')),
                    (js ''method'', JStr (js ''POST'')),
                    (js ''status'', JNum 200),
                    (js ''error'', JNull),
                    (js ''request'', JObj [(js ''text'', JStr (js ''a<b'')),
                                           (js ''image_data'', JStr (js ''[Image: 4 chars]''))]),
                    (js ''response'', JArr [])])"
    using t [THEN conjunct2, THEN conjunct2, THEN conjunct1] unfolding fields .
  show ?thesis
    using a b c unfolding content_eq by simp
qed

text \<open>
  Claim C6 as stated promises a notification whenever the slot is empty, and one
  clipboard write whenever it holds a record. On a page where \<^verbatim>\<open>window.showToast\<close> is
  not defined the export of an empty slot shows nothing and changes nothing. On a page
  where \<^verbatim>\<open>navigator.clipboard\<close> is not defined the export of a recorded call throws a
  \<^verbatim>\<open>TypeError\<close> and writes nothing.
\<close>

theorem copyLastApiCall_no_notifier_counterexample:
  "lastApiCall (full_page\<lparr>showToast := False\<rparr>) = None
   \<and> copyLastApiCall small_numbers True (full_page\<lparr>showToast := False\<rparr>)
       = Inr (full_page\<lparr>showToast := False\<rparr>)
   \<and> toasts (full_page\<lparr>showToast := False\<rparr>) = []
   \<and> lastApiCall (full_page\<lparr>lastApiCall := Some sample_call, navigator_clipboard := False\<rparr>)
       = Some sample_call
   \<and> copyLastApiCall small_numbers True
        (full_page\<lparr>lastApiCall := Some sample_call, navigator_clipboard := False\<rparr>)
       = Inl TypeError"
  by (simp add: copyLastApiCall_def writeText_def notify_def full_page_def)

section \<open>Properties of the rendered snapshot\<close>

lemma escape_lt_no_lt: "0x3C \<notin> set (escape_lt s)"
  by (induction s) (auto simp: escape_lt_def js_def)

lemma escape_lt_unchanged: "0x3C \<notin> set s \<Longrightarrow> escape_lt s = s"
  by (induction s) (auto simp: escape_lt_def)

lemma join_lists_member:
  "x \<in> set xs \<Longrightarrow> \<exists>before after. join sep xs = before @ x @ after"
proof (induction sep xs rule: join.induct)
  case (1 sep)
  then show ?case by simp
next
  case (2 sep y)
  then have "join sep [y] = [] @ x @ []" by simp
  then show ?case by blast
next
  case (3 sep y z zs)
  show ?case
  proof (cases "x = y")
    case True
    then have "join sep (y # z # zs) = [] @ x @ (sep @ join sep (z # zs))" by simp
    then show ?thesis by blast
  next
    case False
    with 3 obtain b a where "join sep (z # zs) = b @ x @ a" by auto
    then have "join sep (y # z # zs) = (y @ sep @ b) @ x @ a" by simp
    then show ?thesis by blast
  qed
qed

lemma sample_renderable: "renderable sample_snapshot" "\<not> renderable odd_snapshot"
  by (simp_all add: renderable_def entries_def odd_snapshot_def sample_snapshot_def js_def)

text \<open>
  Claim C7. A snapshot is rendered when every value of its two environment maps
  converts to a string; for any other snapshot \<^verbatim>\<open>renderDebugInfo\<close> throws before it
  assigns any markup. For a snapshot rendered into the content container: if the
  \<^verbatim>\<open>cors\<close> field is absent, the markup is the timestamp line followed directly by the
  API-call section and the later sections, with nothing for CORS; if it is present, the
  CORS section stands between them, and it holds the allowed origins joined with a
  comma and a space (so every origin occurs in it) and exactly one of the two labels
  for \<^verbatim>\<open>is_restricted\<close>, which are different texts.
\<close>

theorem renderDebugInfo_cors_section:
  "debugInfoContent p = Some content \<Longrightarrow>
   (renderable data \<longrightarrow>
      (\<exists>p'. renderDebugInfo E data p = Inr p'
         \<and> (cors data = None \<longrightarrow>
              map_option innerHTML (debugInfoContent p')
                = Some (timestamp_line data @ api_section E (lastApiCall p)
                        @ environment_section E (environment data)
                        @ env_vars_section E (env_vars data)
                        @ models_section E (models data)))
         \<and> (cors data = Some c \<longrightarrow>
              map_option innerHTML (debugInfoContent p')
                = Some (timestamp_line data
                        @ (section_open @ cors_heading
                           @ origins_open @ join (js '', '') (allowed_origins c) @ code_item_close
                           @ restricted_open
                           @ (if is_restricted c then [0x2705] @ js '' '' @ [0x306F, 0x3044]
                              else [0x274C] @ js '' '' @ [0x3044, 0x3044, 0x3048] @ js '' (''
                                   @ [0x5168, 0x8A31, 0x53EF] @ js '')'')
                           @ span_item_close
                           @ platform_item (detected_platform c) @ grid_close)
                        @ api_section E (lastApiCall p)
                        @ environment_section E (environment data)
                        @ env_vars_section E (env_vars data)
                        @ models_section E (models data)))))
   \<and> (\<not> renderable data \<longrightarrow> renderDebugInfo E data p = Inl TypeError)
   \<and> (origin \<in> set (allowed_origins c) \<longrightarrow>
        (\<exists>before after. join (js '', '') (allowed_origins c) = before @ origin @ after))
   \<and> [0x2705] @ js '' '' @ [0x306F, 0x3044]
       \<noteq> [0x274C] @ js '' '' @ [0x3044, 0x3044, 0x3048] @ js '' ('' @ [0x5168, 0x8A31, 0x53EF] @ js '')''"
proof -
  assume c: "debugInfoContent p = Some content"
  have labels: "label_restricted = [0x2705] @ js '' '' @ [0x306F, 0x3044]"
    "label_unrestricted
       = [0x274C] @ js '' '' @ [0x3044, 0x3044, 0x3048] @ js '' ('' @ [0x5168, 0x8A31, 0x53EF] @ js '')''"
    by (simp_all add: label_restricted_def label_unrestricted_def)
  have differ: "[0x2705] @ js '' '' @ [0x306F, 0x3044]
       \<noteq> [0x274C] @ js '' '' @ [0x3044, 0x3044, 0x3048] @ js '' ('' @ [0x5168, 0x8A31, 0x53EF] @ js '')''"
    by simp
  have absent: "cors data = None \<Longrightarrow>
      rendered_markup E (lastApiCall p) data
        = timestamp_line data @ api_section E (lastApiCall p)
          @ environment_section E (environment data)
          @ env_vars_section E (env_vars data)
          @ models_section E (models data)"
    by (simp add: rendered_markup_def cors_section_def)
  have present: "cors data = Some c \<Longrightarrow>
      rendered_markup E (lastApiCall p) data
        = timestamp_line data
          @ (section_open @ cors_heading
             @ origins_open @ join (js '', '') (allowed_origins c) @ code_item_close
             @ restricted_open
             @ (if is_restricted c then [0x2705] @ js '' '' @ [0x306F, 0x3044]
                else [0x274C] @ js '' '' @ [0x3044, 0x3044, 0x3048] @ js '' (''
                     @ [0x5168, 0x8A31, 0x53EF] @ js '')'')
             @ span_item_close
             @ platform_item (detected_platform c) @ grid_close)
          @ api_section E (lastApiCall p)
          @ environment_section E (environment data)
          @ env_vars_section E (env_vars data)
          @ models_section E (models data)"
    unfolding labels [symmetric] by (simp add: rendered_markup_def cors_section_def)
  have rendered: "renderable data \<longrightarrow>
      (\<exists>p'. renderDebugInfo E data p = Inr p'
         \<and> map_option innerHTML (debugInfoContent p')
             = Some (rendered_markup E (lastApiCall p) data))"
    by (simp add: renderDebugInfo_rendered [OF c])
  show ?thesis
    using rendered absent present renderDebugInfo_throws [OF c, of data E]
      join_lists_member [of origin "allowed_origins c" "js '', ''"] differ
    by metis
qed

text \<open>
  A snapshot with two origins in restricted mode, the same without \<^verbatim>\<open>cors\<close>, and a
  snapshot with a value that does not convert.
\<close>

theorem renderDebugInfo_cors_section_witness:
  "(\<exists>p'. renderDebugInfo small_numbers sample_snapshot full_page = Inr p'
      \<and> map_option innerHTML (debugInfoContent p')
        = Some (timestamp_line sample_snapshot
             @ (section_open @ cors_heading
                @ origins_open @ js ''http://localhost:8000'' @ js '', '' @ js ''https://memo.example''
                @ code_item_close
                @ restricted_open @ [0x2705] @ js '' '' @ [0x306F, 0x3044] @ span_item_close
                @ grid_close)
             @ api_section small_numbers None
             @ environment_section small_numbers (environment sample_snapshot)
             @ env_vars_section small_numbers None
             @ models_section small_numbers (models sample_snapshot)))
   \<and> (\<exists>p'. renderDebugInfo small_numbers (sample_snapshot\<lparr>cors := None\<rparr>) full_page = Inr p'
      \<and> map_option innerHTML (debugInfoContent p')
        = Some (timestamp_line (sample_snapshot\<lparr>cors := None\<rparr>)
             @ api_section small_numbers None
             @ environment_section small_numbers (environment sample_snapshot)
             @ env_vars_section small_numbers None
             @ models_section small_numbers (models sample_snapshot)))
   \<and> renderDebugInfo small_numbers odd_snapshot full_page = Inl TypeError"
proof -
  let ?cors = "\<lparr>allowed_origins = [js ''http://localhost:8000'', js ''https://memo.example''],
                is_restricted = True, detected_platform = None\<rparr>"
  have c: "debugInfoContent full_page = Some shown_element"
    and l: "lastApiCall full_page = None"
    by (simp_all add: full_page_def)
  have r: "renderable (sample_snapshot\<lparr>cors := None\<rparr>)"
    using sample_renderable(1) by (simp add: renderable_def)
  have s: "cors sample_snapshot = Some ?cors" "env_vars sample_snapshot = None"
    "cors (sample_snapshot\<lparr>cors := None\<rparr>) = None"
    "environment (sample_snapshot\<lparr>cors := None\<rparr>) = environment sample_snapshot"
    "env_vars (sample_snapshot\<lparr>cors := None\<rparr>) = None"
    "models (sample_snapshot\<lparr>cors := None\<rparr>) = models sample_snapshot"
    by (simp_all add: sample_snapshot_def)
  note t = renderDebugInfo_cors_section [OF c, of sample_snapshot small_numbers ?cors
      "js ''http://localhost:8000''"]
  note u = renderDebugInfo_cors_section [OF c, of "sample_snapshot\<lparr>cors := None\<rparr>" small_numbers
      ?cors "js ''http://localhost:8000''"]
  note v = renderDebugInfo_cors_section [OF c, of odd_snapshot small_numbers ?cors
      "js ''http://localhost:8000''"]
  from t [THEN conjunct1] sample_renderable(1) s(1)
  have a: "\<exists>p'. renderDebugInfo small_numbers sample_snapshot full_page = Inr p'
      \<and> map_option innerHTML (debugInfoContent p')
        = Some (timestamp_line sample_snapshot
             @ (section_open @ cors_heading
                @ origins_open @ js ''http://localhost:8000'' @ js '', '' @ js ''https://memo.example''
                @ code_item_close
                @ restricted_open @ [0x2705] @ js '' '' @ [0x306F, 0x3044] @ span_item_close
                @ grid_close)
             @ api_section small_numbers None
             @ environment_section small_numbers (environment sample_snapshot)
             @ env_vars_section small_numbers None
             @ models_section small_numbers (models sample_snapshot))"
    by (auto simp: l s(2) platform_item_def)
  from u [THEN conjunct1] r s(3)
  have b: "\<exists>p'. renderDebugInfo small_numbers (sample_snapshot\<lparr>cors := None\<rparr>) full_page = Inr p'
      \<and> map_option innerHTML (debugInfoContent p')
        = Some (timestamp_line (sample_snapshot\<lparr>cors := None\<rparr>)
             @ api_section small_numbers None
             @ environment_section small_numbers (environment sample_snapshot)
             @ env_vars_section small_numbers None
             @ models_section small_numbers (models sample_snapshot))"
    by (auto simp: l s(4,5,6))
  from v sample_renderable(2)
  have "renderDebugInfo small_numbers odd_snapshot full_page = Inl TypeError"
    by blast
  with a b show ?thesis
    by blast
qed

text \<open>
  Claim C8. In the markup of a rendered snapshot, the block of the last API call and
  the block of the raw model list are the JSON text of the record and of the list with
  every \<^verbatim>\<open><\<close> replaced by \<^verbatim>\<open>&lt;\<close> and every other character kept; the text between
  the \<^verbatim>\<open>pre\<close> tags therefore has no \<^verbatim>\<open><\<close> and cannot open a tag, whatever strings
  and numbers the record and the list hold. A snapshot that is not rendered leaves no
  markup of its own: \<^verbatim>\<open>renderDebugInfo\<close> throws.
\<close>

theorem renderDebugInfo_json_blocks_escaped:
  "debugInfoContent p = Some content \<Longrightarrow>
   (renderable data \<longrightarrow>
      (\<exists>p'. renderDebugInfo E data p = Inr p'
         \<and> map_option innerHTML (debugInfoContent p')
             = Some (timestamp_line data @ cors_section (cors data)
                     @ api_section E (lastApiCall p)
                     @ environment_section E (environment data)
                     @ env_vars_section E (env_vars data)
                     @ models_section E (models data))))
   \<and> (\<not> renderable data \<longrightarrow> renderDebugInfo E data p = Inl TypeError)
   \<and> (lastApiCall p = Some call \<longrightarrow>
        api_section E (lastApiCall p)
          = section_open @ api_heading
            @ pre_open @ escape_lt (JSON_stringify E False 2 (api_call_json call)) @ pre_close
            @ div_close)
   \<and> (models data = Some m \<longrightarrow>
        models_section E (models data)
          = section_open
            @ models_heading_open @ number_text E (recommended_count m) @ models_heading_mid
            @ number_text E (total_count m) @ models_heading_close
            @ details_open @ models_summary
            @ models_pre_open @ escape_lt (JSON_stringify E False 2 (JArr (raw_list m)))
            @ pre_close
            @ details_close @ div_close)
   \<and> 0x3C \<notin> set (escape_lt s)
   \<and> escape_lt (s @ [0x3C] @ t) = escape_lt s @ js ''&lt;'' @ escape_lt t
   \<and> (0x3C \<notin> set s \<longrightarrow> escape_lt s = s)"
proof -
  assume c: "debugInfoContent p = Some content"
  have rendered: "renderable data \<longrightarrow>
      (\<exists>p'. renderDebugInfo E data p = Inr p'
         \<and> map_option innerHTML (debugInfoContent p')
             = Some (timestamp_line data @ cors_section (cors data)
                     @ api_section E (lastApiCall p)
                     @ environment_section E (environment data)
                     @ env_vars_section E (env_vars data)
                     @ models_section E (models data)))"
    by (simp add: renderDebugInfo_rendered [OF c] rendered_markup_def)
  have blocks: "lastApiCall p = Some call \<longrightarrow>
        api_section E (lastApiCall p)
          = section_open @ api_heading
            @ pre_open @ escape_lt (JSON_stringify E False 2 (api_call_json call)) @ pre_close
            @ div_close"
    "models data = Some m \<longrightarrow>
        models_section E (models data)
          = section_open
            @ models_heading_open @ number_text E (recommended_count m) @ models_heading_mid
            @ number_text E (total_count m) @ models_heading_close
            @ details_open @ models_summary
            @ models_pre_open @ escape_lt (JSON_stringify E False 2 (JArr (raw_list m)))
            @ pre_close
            @ details_close @ div_close"
    by (simp_all add: api_section_def models_section_def)
  have escape: "escape_lt (s @ [0x3C] @ t) = escape_lt s @ js ''&lt;'' @ escape_lt t"
    by (simp add: escape_lt_def)
  show ?thesis
    using rendered renderDebugInfo_throws [OF c, of data E] blocks escape
      escape_lt_no_lt [of s] escape_lt_unchanged [of s]
    by blast
qed

text \<open>
  A recorded call and a model list that holds the text \<^verbatim>\<open><script>\<close>: in the markup
  the list reads \<^verbatim>\<open>&lt;script>\<close>.
\<close>

theorem renderDebugInfo_json_blocks_escaped_witness:
  "(\<exists>p'. renderDebugInfo small_numbers sample_snapshot (full_page\<lparr>lastApiCall := Some sample_call\<rparr>)
           = Inr p'
      \<and> map_option innerHTML (debugInfoContent p')
        = Some (timestamp_line sample_snapshot @ cors_section (cors sample_snapshot)
             @ (section_open @ api_heading
                @ pre_open
                @ escape_lt (JSON_stringify small_numbers False 2 (api_call_json sample_call))
                @ pre_close @ div_close)
             @ environment_section small_numbers (environment sample_snapshot)
             @ env_vars_section small_numbers None
             @ (section_open
                @ models_heading_open @ js ''1'' @ models_heading_mid
                @ js ''2'' @ models_heading_close
                @ details_open @ models_summary
                @ models_pre_open
                @ (js ''['' @ [0x0A] @
                   js ''  \"&lt;script>\",'' @ [0x0A] @
                   js ''  {'' @ [0x0A] @
                   js ''    \"id\": \"m1\"'' @ [0x0A] @
                   js ''  }'' @ [0x0A] @
                   js '']'')
                @ pre_close @ details_close @ div_close)))
   \<and> 0x3C \<notin> set (escape_lt (JSON_stringify small_numbers False 2 (api_call_json sample_call)))
   \<and> escape_lt (js ''a'' @ [0x3C] @ js ''b'') = js ''a&lt;b''
   \<and> renderDebugInfo small_numbers odd_snapshot (full_page\<lparr>lastApiCall := Some sample_call\<rparr>)
       = Inl TypeError"
proof -
  let ?page = "full_page\<lparr>lastApiCall := Some sample_call\<rparr>"
  have c: "debugInfoContent ?page = Some shown_element"
    and l: "lastApiCall ?page = Some sample_call"
    by (simp_all add: full_page_def)
  have m: "models sample_snapshot = Some sample_models"
    and e: "env_vars sample_snapshot = None"
    by (simp_all add: sample_snapshot_def)
  have counts: "number_text small_numbers (recommended_count sample_models) = js ''1''"
    "number_text small_numbers (total_count sample_models) = js ''2''"
    by code_simp+
  have block: "escape_lt (JSON_stringify small_numbers False 2 (JArr (raw_list sample_models)))
      = js ''['' @ [0x0A] @
        js ''  \"&lt;script>\",'' @ [0x0A] @
        js ''  {'' @ [0x0A] @
        js ''    \"id\": \"m1\"'' @ [0x0A] @
        js ''  }'' @ [0x0A] @
        js '']''"
    by code_simp
  note t = renderDebugInfo_json_blocks_escaped [OF c, of sample_snapshot small_numbers sample_call
        sample_models "JSON_stringify small_numbers False 2 (api_call_json sample_call)" "[]"]
  note u = renderDebugInfo_json_blocks_escaped [OF c, of odd_snapshot small_numbers sample_call
        sample_models "JSON_stringify small_numbers False 2 (api_call_json sample_call)" "[]"]
  have a: "api_section small_numbers (Some sample_call)
      = section_open @ api_heading
        @ pre_open @ escape_lt (JSON_stringify small_numbers False 2 (api_call_json sample_call))
        @ pre_close @ div_close"
    using t unfolding l by blast
  have ms: "models_section small_numbers (Some sample_models)
      = section_open
        @ models_heading_open @ js ''1'' @ models_heading_mid
        @ js ''2'' @ models_heading_close
        @ details_open @ models_summary
        @ models_pre_open
        @ (js ''['' @ [0x0A] @
           js ''  \"&lt;script>\",'' @ [0x0A] @
           js ''  {'' @ [0x0A] @
           js ''    \"id\": \"m1\"'' @ [0x0A] @
           js ''  }'' @ [0x0A] @
           js '']'')
        @ pre_close @ details_close @ div_close"
    using t m unfolding counts [symmetric] block [symmetric] by simp
  have h: "\<exists>p'. renderDebugInfo small_numbers sample_snapshot ?page = Inr p'
      \<and> map_option innerHTML (debugInfoContent p')
        = Some (timestamp_line sample_snapshot @ cors_section (cors sample_snapshot)
              @ api_section small_numbers (Some sample_call)
              @ environment_section small_numbers (environment sample_snapshot)
              @ env_vars_section small_numbers None
              @ models_section small_numbers (Some sample_models))"
    using t [THEN conjunct1] sample_renderable(1) unfolding l e m by blast
  have n: "0x3C \<notin> set (escape_lt (JSON_stringify small_numbers False 2 (api_call_json sample_call)))"
    using t by blast
  have ab: "escape_lt (js ''a'' @ [0x3C] @ js ''b'') = js ''a&lt;b''"
    by (simp add: escape_lt_def js_def)
  have odd: "renderDebugInfo small_numbers odd_snapshot ?page = Inl TypeError"
    using u sample_renderable(2) by blast
  show ?thesis
    using h n ab odd unfolding a ms by blast
qed

text \<open>
  Claim C9, as amended. When the snapshot has a \<^verbatim>\<open>models\<close> field and is rendered
  (every value of its environment maps converts to a string), \<^verbatim>\<open>renderDebugInfo\<close>,
  called by \<^verbatim>\<open>loadDebugInfo\<close> on a page with the content container, stores the raw
  model list in the slot \<^verbatim>\<open>lastModelList\<close>; the markup of the disclosure element plays
  no part in it. A model-list export that follows, on a page where
  \<^verbatim>\<open>navigator.clipboard\<close> is defined, writes one text to the clipboard: the JSON text
  of that list, which parses back to exactly the list.
\<close>

theorem renderDebugInfo_stores_model_list:
  "debugInfoContent p = Some content \<and> models data = Some m \<and> renderable data \<longrightarrow>
     (\<exists>p'. renderDebugInfo E data p = Inr p'
        \<and> lastModelList p' = Some (raw_list m)
        \<and> (ok code \<longrightarrow>
             lastModelList (loadDebugInfo E (Response code statusText (Parsed data)) p)
               = Some (raw_list m))
        \<and> (navigator_clipboard p \<longrightarrow>
             (\<exists>p''. copyModelList E written p' = Inr p''
                \<and> clipboard p'' = clipboard p @ [JSON_stringify E False 2 (JArr (raw_list m))]
                \<and> (ok code \<longrightarrow>
                     copyModelList E written
                         (loadDebugInfo E (Response code statusText (Parsed data)) p)
                       = Inr (p''\<lparr>fetched := fetched p @ [js ''/api/debug5075378'']\<rparr>))))
        \<and> (numbers_round_trip E \<longrightarrow>
             JSON_parse E (JSON_stringify E False 2 (JArr (raw_list m))) = Some (JArr (raw_list m))))"
proof (intro impI, elim conjE)
  assume c: "debugInfoContent p = Some content" and m: "models data = Some m"
    and r: "renderable data"
  define p' where "p' = p\<lparr>lastModelList := Some (raw_list m),
      debugInfoContent := Some (content\<lparr>innerHTML := rendered_markup E (lastApiCall p) data\<rparr>)\<rparr>"
  have a: "renderDebugInfo E data p = Inr p'"
    by (simp add: renderDebugInfo_rendered [OF c r] m p'_def)
  have b: "lastModelList p' = Some (raw_list m)" "clipboard p' = clipboard p"
    "navigator_clipboard p' = navigator_clipboard p"
    by (simp_all add: p'_def)
  have l: "ok code \<longrightarrow> loadDebugInfo E (Response code statusText (Parsed data)) p
      = p'\<lparr>fetched := fetched p @ [debug_url]\<rparr>"
    by (simp add: loadDebugInfo_parsed [OF c] r m p'_def)
  define p'' where "p'' = notify (if written then toast_models_copied else toast_copy_failed)
      (p'\<lparr>clipboard := clipboard p' @ [JSON_stringify E False 2 (JArr (raw_list m))]\<rparr>)"
  have e: "navigator_clipboard p \<longrightarrow> copyModelList E written p' = Inr p''"
    by (simp add: copyModelList_written [OF b(1)] b(3) p''_def)
  have f: "clipboard p'' = clipboard p @ [JSON_stringify E False 2 (JArr (raw_list m))]"
    by (simp add: p''_def notify_fields b(2))
  have g: "navigator_clipboard p \<and> ok code \<longrightarrow>
      copyModelList E written (loadDebugInfo E (Response code statusText (Parsed data)) p)
        = Inr (p''\<lparr>fetched := fetched p @ [js ''/api/debug5075378'']\<rparr>)"
  proof (intro impI, elim conjE)
    assume n: "navigator_clipboard p" and k: "ok code"
    have "lastModelList (p'\<lparr>fetched := fetched p @ [debug_url]\<rparr>) = Some (raw_list m)"
      "navigator_clipboard (p'\<lparr>fetched := fetched p @ [debug_url]\<rparr>)"
      using n by (simp_all add: p'_def)
    from copyModelList_written [OF this, of E written] l k
    show "copyModelList E written (loadDebugInfo E (Response code statusText (Parsed data)) p)
        = Inr (p''\<lparr>fetched := fetched p @ [js ''/api/debug5075378'']\<rparr>)"
      by (simp add: p''_def notify_def debug_url_def)
  qed
  have h: "numbers_round_trip E \<longrightarrow>
      JSON_parse E (JSON_stringify E False 2 (JArr (raw_list m))) = Some (JArr (raw_list m))"
    by (simp add: JSON_parse_stringify)
  show "\<exists>p'. renderDebugInfo E data p = Inr p'
        \<and> lastModelList p' = Some (raw_list m)
        \<and> (ok code \<longrightarrow>
             lastModelList (loadDebugInfo E (Response code statusText (Parsed data)) p)
               = Some (raw_list m))
        \<and> (navigator_clipboard p \<longrightarrow>
             (\<exists>p''. copyModelList E written p' = Inr p''
                \<and> clipboard p'' = clipboard p @ [JSON_stringify E False 2 (JArr (raw_list m))]
                \<and> (ok code \<longrightarrow>
                     copyModelList E written
                         (loadDebugInfo E (Response code statusText (Parsed data)) p)
                       = Inr (p''\<lparr>fetched := fetched p @ [js ''/api/debug5075378'']\<rparr>))))
        \<and> (numbers_round_trip E \<longrightarrow>
             JSON_parse E (JSON_stringify E False 2 (JArr (raw_list m))) = Some (JArr (raw_list m)))"
    using a b(1) l e f g h by (intro exI [of _ p']) (auto simp: b(1))
qed

text \<open>
  After a load of the sample snapshot the list is stored, and the export writes its
  JSON text, which parses back to the list.
\<close>

theorem renderDebugInfo_stores_model_list_witness:
  "lastModelList (loadDebugInfo small_numbers (Response 200 (js ''OK'') (Parsed sample_snapshot))
       full_page)
     = Some [JStr (js ''<script>''), JObj [(js ''id'', JStr (js ''m1''))]]
   \<and> (\<exists>p''. copyModelList small_numbers True
               (loadDebugInfo small_numbers (Response 200 (js ''OK'') (Parsed sample_snapshot))
                  full_page) = Inr p''
         \<and> clipboard p''
            = [js ''['' @ [0x0A] @
               js ''  \"<script>\",'' @ [0x0A] @
               js ''  {'' @ [0x0A] @
               js ''    \"id\": \"m1\"'' @ [0x0A] @
               js ''  }'' @ [0x0A] @
               js '']''])
   \<and> JSON_parse small_numbers
        (js ''['' @ [0x0A] @
         js ''  \"<script>\",'' @ [0x0A] @
         js ''  {'' @ [0x0A] @
         js ''    \"id\": \"m1\"'' @ [0x0A] @
         js ''  }'' @ [0x0A] @
         js '']'')
      = Some (JArr [JStr (js ''<script>''), JObj [(js ''id'', JStr (js ''m1''))]])"
proof -
  let ?res = "Response 200 (js ''OK'') (Parsed sample_snapshot)"
  have c: "debugInfoContent full_page = Some shown_element" "clipboard full_page = []"
    "navigator_clipboard full_page"
    by (simp_all add: full_page_def)
  have k: "ok 200" by (simp add: ok_def)
  have m: "models sample_snapshot = Some sample_models"
    by (simp add: sample_snapshot_def)
  have raw: "raw_list sample_models = [JStr (js ''<script>''), JObj [(js ''id'', JStr (js ''m1''))]]"
    by (simp add: sample_models_def)
  have block: "JSON_stringify small_numbers False 2
        (JArr [JStr (js ''<script>''), JObj [(js ''id'', JStr (js ''m1''))]])
      = js ''['' @ [0x0A] @
        js ''  \"<script>\",'' @ [0x0A] @
        js ''  {'' @ [0x0A] @
        js ''    \"id\": \"m1\"'' @ [0x0A] @
        js ''  }'' @ [0x0A] @
        js '']''"
    by code_simp
  from renderDebugInfo_stores_model_list [of full_page shown_element sample_snapshot sample_models
      small_numbers 200 "js ''OK''" True] c(1) m sample_renderable(1)
  obtain p' where p': "lastModelList (loadDebugInfo small_numbers ?res full_page)
        = Some (raw_list sample_models)"
    and export: "\<exists>p''. copyModelList small_numbers True p' = Inr p''
        \<and> clipboard p''
            = clipboard full_page @ [JSON_stringify small_numbers False 2 (JArr (raw_list sample_models))]
        \<and> copyModelList small_numbers True (loadDebugInfo small_numbers ?res full_page)
            = Inr (p''\<lparr>fetched := fetched full_page @ [js ''/api/debug5075378'']\<rparr>)"
    and parsed: "JSON_parse small_numbers
        (JSON_stringify small_numbers False 2 (JArr (raw_list sample_models)))
        = Some (JArr (raw_list sample_models))"
    using k c(3) small_numbers_round_trip by blast
  from export obtain p'' where
    "clipboard p'' = [JSON_stringify small_numbers False 2 (JArr (raw_list sample_models))]"
    "copyModelList small_numbers True (loadDebugInfo small_numbers ?res full_page)
       = Inr (p''\<lparr>fetched := fetched full_page @ [js ''/api/debug5075378'']\<rparr>)"
    using c(2) by auto
  then have "\<exists>q. copyModelList small_numbers True (loadDebugInfo small_numbers ?res full_page) = Inr q
      \<and> clipboard q = [JSON_stringify small_numbers False 2 (JArr (raw_list sample_models))]"
    by simp
  with p' parsed show ?thesis
    unfolding raw block by blast
qed

text \<open>
  Claim C9 as stated promises the store for every snapshot that has a \<^verbatim>\<open>models\<close>
  field, and an export of that list afterwards. The snapshot \<open>odd_snapshot\<close> has the
  field, and one of its environment variables is an object with a property
  \<^verbatim>\<open>toString\<close>: loaded on the page with the content container, it makes
  \<^verbatim>\<open>renderDebugInfo\<close> throw at the conversion of that value, before the store; the
  slot stays empty. And after a load that has stored the list, on a page where
  \<^verbatim>\<open>navigator.clipboard\<close> is not defined, the export throws and copies nothing.
\<close>

theorem renderDebugInfo_unconvertible_counterexample:
  "models odd_snapshot = Some sample_models
   \<and> debugInfoContent full_page = Some shown_element
   \<and> lastModelList full_page = None
   \<and> renderDebugInfo small_numbers odd_snapshot full_page = Inl TypeError
   \<and> lastModelList (loadDebugInfo small_numbers (Response 200 (js ''OK'') (Parsed odd_snapshot))
        full_page) = None
   \<and> lastModelList (loadDebugInfo small_numbers (Response 200 (js ''OK'') (Parsed sample_snapshot))
        (full_page\<lparr>navigator_clipboard := False\<rparr>)) = Some (raw_list sample_models)
   \<and> copyModelList small_numbers True
        (loadDebugInfo small_numbers (Response 200 (js ''OK'') (Parsed sample_snapshot))
           (full_page\<lparr>navigator_clipboard := False\<rparr>)) = Inl TypeError"
proof -
  have c: "debugInfoContent full_page = Some shown_element" "lastModelList full_page = None"
    and d: "debugInfoContent (full_page\<lparr>navigator_clipboard := False\<rparr>) = Some shown_element"
    by (simp_all add: full_page_def)
  have k: "ok 200" by (simp add: ok_def)
  have m: "models odd_snapshot = Some sample_models" "models sample_snapshot = Some sample_models"
    by (simp_all add: odd_snapshot_def sample_snapshot_def)
  have stored: "lastModelList (loadDebugInfo small_numbers
        (Response 200 (js ''OK'') (Parsed sample_snapshot))
        (full_page\<lparr>navigator_clipboard := False\<rparr>)) = Some (raw_list sample_models)"
    and no_api: "\<not> navigator_clipboard (loadDebugInfo small_numbers
        (Response 200 (js ''OK'') (Parsed sample_snapshot))
        (full_page\<lparr>navigator_clipboard := False\<rparr>))"
    by (simp_all add: loadDebugInfo_parsed [OF d k] sample_renderable m)
  then have "copyModelList small_numbers True
        (loadDebugInfo small_numbers (Response 200 (js ''OK'') (Parsed sample_snapshot))
           (full_page\<lparr>navigator_clipboard := False\<rparr>)) = Inl TypeError"
    by (simp add: copyModelList_def writeText_def)
  with stored show ?thesis
    using c m(1) renderDebugInfo_throws [OF c(1) sample_renderable(2), of small_numbers]
    by (simp add: loadDebugInfo_parsed [OF c(1) k] sample_renderable)
qed


end
